theory Spec2Isabelle
  imports Complex_Main "HOL-Library.AList" "HOL-Library.Sublist"
begin

section \<open>JavaScript values as the client sees them\<close>

text \<open>
  A parsed JSON body. A number of a body is kept as the rational number it stands for:
  the client only tests it for zero and turns it into a string. An object is the list
  of its entries; a property is read with \<open>map_of\<close>. The value \<open>undefined\<close>
  is \<open>None\<close> of \<open>json option\<close>.
\<close>

datatype json =
    JNull
  | JBool bool
  | JNum rat
  | JStr string
  | JArr "json list"
  | JObj "(string \<times> json) list"

type_synonym jsval = "json option"

text \<open>What a \<open>throw\<close> of the client carries.\<close>

datatype error =
    Error string    \<comment> \<open>\<open>new Error(message)\<close>\<close>
  | TypeError       \<comment> \<open>a property read on \<open>null\<close> or \<open>undefined\<close>\<close>
  | NetworkError    \<comment> \<open>\<open>fetch\<close> rejected\<close>
  | SyntaxError     \<comment> \<open>\<open>response.json()\<close> rejected: the body is not JSON\<close>

text \<open>
  The parts of the platform the sources call but do not define: the base URL taken from
  the build environment, the rendering of a number as a string, \<open>JSON.stringify\<close>,
  the component encoding of \<open>URLSearchParams\<close> and the messages of built-in errors.
\<close>

record env =
  API_BASE_URL :: string
  num_str :: "rat \<Rightarrow> string"
  stringify :: "json \<Rightarrow> string"
  url_encode :: "string \<Rightarrow> string"
  builtin_message :: "error \<Rightarrow> string"

text \<open>Truthiness, as \<open>if (v)\<close>, \<open>!v\<close> and \<open>v || d\<close> test it.\<close>

fun truthy :: "jsval \<Rightarrow> bool" where
  "truthy None = False"
| "truthy (Some JNull) = False"
| "truthy (Some (JBool b)) = b"
| "truthy (Some (JNum n)) = (n \<noteq> 0)"
| "truthy (Some (JStr s)) = (s \<noteq> [])"
| "truthy (Some (JArr _)) = True"
| "truthy (Some (JObj _)) = True"

text \<open>\<open>localStorage.getItem\<close> gives a string or \<open>null\<close>; only a non-empty string is truthy.\<close>

fun truthy_str :: "string option \<Rightarrow> bool" where
  "truthy_str None = False"
| "truthy_str (Some s) = (s \<noteq> [])"

text \<open>
  \<open>v.k\<close> for the property names the sources read (none of them is a built-in property
  of a string, number, boolean or array): a \<open>TypeError\<close> on \<open>null\<close> and
  \<open>undefined\<close>, the entry of an object, \<open>undefined\<close> otherwise.
\<close>

fun get_prop :: "jsval \<Rightarrow> string \<Rightarrow> error + jsval" where
  "get_prop None k = Inl TypeError"
| "get_prop (Some JNull) k = Inl TypeError"
| "get_prop (Some (JObj kvs)) k = Inr (map_of kvs k)"
| "get_prop (Some _) k = Inr None"

text \<open>\<open>v?.k\<close>: \<open>undefined\<close> where \<open>v\<close> is \<open>null\<close> or \<open>undefined\<close>.\<close>

fun opt_prop :: "jsval \<Rightarrow> string \<Rightarrow> jsval" where
  "opt_prop (Some (JObj kvs)) k = map_of kvs k"
| "opt_prop _ k = None"

text \<open>\<open>a || b\<close>.\<close>

definition js_or :: "jsval \<Rightarrow> jsval \<Rightarrow> jsval" where
  "js_or a b = (if truthy a then a else b)"

fun join_with :: "string \<Rightarrow> string list \<Rightarrow> string" where
  "join_with sep [] = []"
| "join_with sep [x] = x"
| "join_with sep (x # y # ys) = x @ sep @ join_with sep (y # ys)"

text \<open>
  The string a value turns into in a template literal or as an argument of
  \<open>localStorage.setItem\<close>. Inside an array, \<open>null\<close> is the empty string.
\<close>

fun to_string :: "env \<Rightarrow> json \<Rightarrow> string" where
  "to_string E JNull = ''null''"
| "to_string E (JBool b) = (if b then ''true'' else ''false'')"
| "to_string E (JNum n) = num_str E n"
| "to_string E (JStr s) = s"
| "to_string E (JArr xs) =
     join_with '','' (map (\<lambda>x. if x = JNull then [] else to_string E x) xs)"
| "to_string E (JObj kvs) = ''[object Object]''"

definition js_string :: "env \<Rightarrow> jsval \<Rightarrow> string" where
  "js_string E v = (case v of None \<Rightarrow> ''undefined'' | Some j \<Rightarrow> to_string E j)"

section \<open>Numbers\<close>

text \<open>
  The numbers of the receipt form are IEEE 754 doubles, as JavaScript computes with
  them. \<open>Finite m e\<close> is the number \<open>m\<close> times two to the power \<open>e\<close>; a double
  is written with \<open>m\<close> odd, or as \<open>Finite 0 0\<close> for zero. The other four values
  are the negative zero, the two infinities and NaN. The operations go by the number a
  value stands for, and give their result in the form with \<open>m\<close> odd.
\<close>

datatype double = Finite int int | NegZero | PosInf | NegInf | NaN

text \<open>The number of binary digits of a positive integer.\<close>

function bits :: "int \<Rightarrow> int" where
  "bits n = (if n \<le> 0 then 0 else 1 + bits (n div 2))"
  by pat_completeness auto
termination
  by (relation "measure nat") auto

text \<open>The double \<open>m\<close> times two to the power \<open>e\<close>, for a value that needs no rounding.\<close>

function strip :: "int \<Rightarrow> int \<Rightarrow> double" where
  "strip m e =
     (if m = 0 then Finite 0 0
      else if even m then strip (m div 2) (e + 1)
      else Finite m e)"
  by pat_completeness auto
termination
  by (relation "measure (\<lambda>(m, e). nat \<bar>m\<bar>)") auto

definition signed_zero :: "bool \<Rightarrow> double" where
  "signed_zero neg = (if neg then NegZero else Finite 0 0)"

definition signed_inf :: "bool \<Rightarrow> double" where
  "signed_inf neg = (if neg then NegInf else PosInf)"

text \<open>
  Rounding to the nearest double, ties to the even mantissa: the magnitude is \<open>a\<close>
  times two to the power \<open>e\<close>, plus less than one unit of \<open>a\<close> when \<open>sticky\<close>
  is set. The last binary place kept is \<open>k\<close>: 52 places below the leading digit, and
  never below \<open>-1074\<close>; a result of \<open>2 ^ 1024\<close> or more is an infinity.
\<close>

definition round_dyadic :: "bool \<Rightarrow> int \<Rightarrow> int \<Rightarrow> bool \<Rightarrow> double" where
  "round_dyadic neg a e sticky =
     (let k = max (bits a - 1 + e) (- 1022) - 52;
          n = (if k \<le> e then a
               else
                 (let d = nat (k - e); q = a div 2 ^ d; r = a mod 2 ^ d; h = 2 ^ (d - 1)
                  in if h < r \<or> (r = h \<and> (sticky \<or> odd q)) then q + 1 else q));
          x = (if k \<le> e then e else k)
      in if n = 0 then signed_zero neg
         else if 1024 < bits n + x then signed_inf neg
         else strip (if neg then - n else n) x)"

definition is_zero :: "double \<Rightarrow> bool" where
  "is_zero x = (x = Finite 0 0 \<or> x = NegZero)"

definition is_inf :: "double \<Rightarrow> bool" where
  "is_inf x = (x = PosInf \<or> x = NegInf)"

definition negative :: "double \<Rightarrow> bool" where
  "negative x = (case x of Finite m e \<Rightarrow> m < 0 | NegZero \<Rightarrow> True | NegInf \<Rightarrow> True | _ \<Rightarrow> False)"

definition mant :: "double \<Rightarrow> int" where
  "mant x = (case x of Finite m e \<Rightarrow> m | _ \<Rightarrow> 0)"

definition expo :: "double \<Rightarrow> int" where
  "expo x = (case x of Finite m e \<Rightarrow> e | _ \<Rightarrow> 0)"

text \<open>The operators \<open>+\<close>, \<open>*\<close> and \<open>/\<close> on numbers.\<close>

definition fadd :: "double \<Rightarrow> double \<Rightarrow> double" where
  "fadd x y =
     (if x = NaN \<or> y = NaN then NaN
      else if is_inf x then (if is_inf y \<and> y \<noteq> x then NaN else x)
      else if is_inf y then y
      else if x = NegZero \<and> y = NegZero then NegZero
      else
        (let e = min (expo x) (expo y);
             m = mant x * 2 ^ nat (expo x - e) + mant y * 2 ^ nat (expo y - e)
         in if m = 0 then Finite 0 0 else round_dyadic (m < 0) \<bar>m\<bar> e False))"

definition fmul :: "double \<Rightarrow> double \<Rightarrow> double" where
  "fmul x y =
     (if x = NaN \<or> y = NaN then NaN
      else if is_inf x \<or> is_inf y then
        (if is_zero x \<or> is_zero y then NaN else signed_inf (negative x \<noteq> negative y))
      else if is_zero x \<or> is_zero y then signed_zero (negative x \<noteq> negative y)
      else round_dyadic (negative x \<noteq> negative y) \<bar>mant x * mant y\<bar> (expo x + expo y) False)"

definition fdiv :: "double \<Rightarrow> double \<Rightarrow> double" where
  "fdiv x y =
     (if x = NaN \<or> y = NaN then NaN
      else if is_inf x then (if is_inf y then NaN else signed_inf (negative x \<noteq> negative y))
      else if is_inf y then signed_zero (negative x \<noteq> negative y)
      else if is_zero y then (if is_zero x then NaN else signed_inf (negative x \<noteq> negative y))
      else if is_zero x then signed_zero (negative x \<noteq> negative y)
      else
        (let a = \<bar>mant x\<bar>; b = \<bar>mant y\<bar>;
             s = nat (max 0 (bits b - bits a + 56));
             q = (a * 2 ^ s) div b; r = (a * 2 ^ s) mod b
         in round_dyadic (negative x \<noteq> negative y) q (expo x - expo y - int s) (r \<noteq> 0)))"

text \<open>The rational number a finite double stands for.\<close>

definition pow2 :: "int \<Rightarrow> rat" where
  "pow2 e = (if 0 \<le> e then 2 ^ nat e else 1 / 2 ^ nat (- e))"

definition val :: "double \<Rightarrow> rat" where
  "val x = (case x of Finite m e \<Rightarrow> of_int m * pow2 e | _ \<Rightarrow> 0)"

definition is_finite :: "double \<Rightarrow> bool" where
  "is_finite x = (case x of Finite m e \<Rightarrow> True | NegZero \<Rightarrow> True | _ \<Rightarrow> False)"

text \<open>The comparison \<open>x <= y\<close> and the strict equality \<open>x === y\<close> of two numbers.\<close>

definition fle :: "double \<Rightarrow> double \<Rightarrow> bool" where
  "fle x y =
     (if x = NaN \<or> y = NaN then False
      else if x = NegInf \<or> y = PosInf then True
      else if x = PosInf \<or> y = NegInf then False
      else val x \<le> val y)"

definition js_eq :: "double \<Rightarrow> double \<Rightarrow> bool" where
  "js_eq x y =
     (if x = NaN \<or> y = NaN then False
      else if is_finite x \<and> is_finite y then val x = val y
      else x = y)"

text \<open>
  A number as \<open>JSON.stringify\<close> writes it: \<open>null\<close> for NaN and the infinities, and
  zero for the negative zero.
\<close>

definition number_json :: "double \<Rightarrow> json" where
  "number_json x = (if is_finite x then JNum (val x) else JNull)"

section \<open>The browser: local storage, location and the network\<close>

record request =
  url :: string
  http_method :: "string option"
  headers :: "(string \<times> string) list"
  body :: "string option"

record response =
  status :: nat
  json_body :: "json option"   \<comment> \<open>\<open>None\<close>: \<open>response.json()\<close> rejects\<close>

text \<open>\<open>response.ok\<close>: the status is in the range 200 to 299.\<close>

definition resp_ok :: "response \<Rightarrow> bool" where
  "resp_ok r = (200 \<le> status r \<and> status r \<le> 299)"

text \<open>
  The world a call runs in. \<open>network\<close> answers a request given the requests issued
  before it; \<open>None\<close> is a rejected \<open>fetch\<close>. \<open>sent\<close> records every request
  issued, in order.
\<close>

record world =
  storage :: "string \<rightharpoonup> string"
  location_href :: string
  sent :: "request list"
  network :: "request list \<Rightarrow> request \<Rightarrow> response option"

definition fetch :: "request \<Rightarrow> world \<Rightarrow> (error + response) \<times> world" where
  "fetch req w =
     ((case network w (sent w) req of None \<Rightarrow> Inl NetworkError | Some r \<Rightarrow> Inr r),
      w\<lparr>sent := sent w @ [req]\<rparr>)"

text \<open>\<open>await response.json()\<close>.\<close>

definition response_json :: "response \<Rightarrow> error + json" where
  "response_json r = (case json_body r of None \<Rightarrow> Inl SyntaxError | Some d \<Rightarrow> Inr d)"

section \<open>The API service\<close>

definition getToken :: "world \<Rightarrow> string option" where
  "getToken w = storage w ''access_token''"

definition setTokens :: "env \<Rightarrow> jsval \<Rightarrow> jsval \<Rightarrow> world \<Rightarrow> world" where
  "setTokens E accessToken refreshToken w =
     (let w1 = w\<lparr>storage := (storage w)(''access_token'' \<mapsto> js_string E accessToken)\<rparr>
      in if truthy refreshToken
         then w1\<lparr>storage := (storage w1)(''refresh_token'' \<mapsto> js_string E refreshToken)\<rparr>
         else w1)"

definition clearTokens :: "world \<Rightarrow> world" where
  "clearTokens w =
     w\<lparr>storage := (storage w)(''access_token'' := None, ''refresh_token'' := None,
                               ''user'' := None)\<rparr>"

text \<open>The \<open>options\<close> argument of \<open>apiRequest\<close>.\<close>

record options =
  opt_method :: "string option"
  opt_body :: "string option"
  opt_headers :: "(string \<times> string) list"

definition no_options :: options where
  "no_options = \<lparr>opt_method = None, opt_body = None, opt_headers = []\<rparr>"

text \<open>\<open>{ ...a, ...b }\<close> on objects with string values: the entries of \<open>b\<close> are set in order.\<close>

definition spread :: "(string \<times> string) list \<Rightarrow> (string \<times> string) list \<Rightarrow> (string \<times> string) list" where
  "spread a b = foldl (\<lambda>h (k, v). AList.update k v h) a b"

definition refresh_request :: "env \<Rightarrow> string \<Rightarrow> request" where
  "refresh_request E refreshToken =
     \<lparr>url = API_BASE_URL E @ ''/auth/refresh'', http_method = Some ''POST'',
      headers = [(''Content-Type'', ''application/json''),
                 (''Authorization'', ''Bearer '' @ refreshToken)],
      body = None\<rparr>"

text \<open>\<open>refreshAccessToken\<close>: every exception inside is caught and gives \<open>false\<close>.\<close>

definition refreshAccessToken :: "env \<Rightarrow> string \<Rightarrow> world \<Rightarrow> bool \<times> world" where
  "refreshAccessToken E refreshToken w =
     (case fetch (refresh_request E refreshToken) w of
        (Inl e, w1) \<Rightarrow> (False, w1)
      | (Inr r, w1) \<Rightarrow>
          if resp_ok r then
            (case response_json r of
               Inl e \<Rightarrow> (False, w1)
             | Inr data \<Rightarrow>
                 (case get_prop (Some data) ''access_token'' of
                    Inl e \<Rightarrow> (False, w1)
                  | Inr tok \<Rightarrow>
                      (True, w1\<lparr>storage := (storage w1)(''access_token'' \<mapsto> js_string E tok)\<rparr>)))
          else (False, w1))"

text \<open>The headers \<open>apiRequest\<close> builds before its first \<open>fetch\<close>.\<close>

definition request_headers :: "options \<Rightarrow> world \<Rightarrow> (string \<times> string) list" where
  "request_headers options w =
     (let headers = spread [(''Content-Type'', ''application/json'')] (opt_headers options)
      in case getToken w of
           None \<Rightarrow> headers
         | Some token \<Rightarrow>
             if token \<noteq> [] then AList.update ''Authorization'' (''Bearer '' @ token) headers
             else headers)"

definition build_request :: "env \<Rightarrow> string \<Rightarrow> options \<Rightarrow> (string \<times> string) list \<Rightarrow> request" where
  "build_request E endpoint options hs =
     \<lparr>url = API_BASE_URL E @ endpoint, http_method = opt_method options, headers = hs,
      body = opt_body options\<rparr>"

text \<open>The string \<open>`Bearer ${getToken()}`\<close>: a missing item reads \<open>null\<close>.\<close>

definition bearer :: "string option \<Rightarrow> string" where
  "bearer t = ''Bearer '' @ (case t of None \<Rightarrow> ''null'' | Some s \<Rightarrow> s)"

definition session_expired :: "world \<Rightarrow> (error + response) \<times> world" where
  "session_expired w =
     (Inl (Error ''Session expired''), (clearTokens w)\<lparr>location_href := ''/login''\<rparr>)"

definition apiRequest :: "env \<Rightarrow> string \<Rightarrow> options \<Rightarrow> world \<Rightarrow> (error + response) \<times> world" where
  "apiRequest E endpoint options w =
     (let headers = request_headers options w in
      case fetch (build_request E endpoint options headers) w of
        (Inl e, w1) \<Rightarrow> (Inl e, w1)
      | (Inr response, w1) \<Rightarrow>
          if status response = 401 then
            (case storage w1 ''refresh_token'' of
               None \<Rightarrow> session_expired w1
             | Some refreshToken \<Rightarrow>
                 if refreshToken \<noteq> [] then
                   (case refreshAccessToken E refreshToken w1 of
                      (True, w2) \<Rightarrow>
                        fetch (build_request E endpoint options
                                 (AList.update ''Authorization'' (bearer (getToken w2)) headers)) w2
                    | (False, w2) \<Rightarrow> session_expired w2)
                 else session_expired w1)
          else (Inr response, w1))"

text \<open>The first request of \<open>apiRequest\<close>, the world after it, and the retried request.\<close>

abbreviation first_request :: "env \<Rightarrow> string \<Rightarrow> options \<Rightarrow> world \<Rightarrow> request" where
  "first_request E ep opts w \<equiv> build_request E ep opts (request_headers opts w)"

abbreviation after_first :: "env \<Rightarrow> string \<Rightarrow> options \<Rightarrow> world \<Rightarrow> world" where
  "after_first E ep opts w \<equiv> w\<lparr>sent := sent w @ [first_request E ep opts w]\<rparr>"

abbreviation retry_request :: "env \<Rightarrow> string \<Rightarrow> options \<Rightarrow> world \<Rightarrow> world \<Rightarrow> request" where
  "retry_request E ep opts w w2 \<equiv>
     build_request E ep opts
       (AList.update ''Authorization'' (bearer (getToken w2)) (request_headers opts w))"

text \<open>The method \<open>fetch\<close> uses: \<open>GET\<close> unless one is given.\<close>

definition effective_method :: "request \<Rightarrow> string" where
  "effective_method r = (case http_method r of None \<Rightarrow> ''GET'' | Some m \<Rightarrow> m)"

text \<open>
  The first answer is 401, a non-empty refresh token is stored and the refresh succeeds:
  the case in which \<open>apiRequest\<close> sends the request a second time.
\<close>

definition retried :: "env \<Rightarrow> string \<Rightarrow> options \<Rightarrow> world \<Rightarrow> bool" where
  "retried E ep opts w =
     (case network w (sent w) (first_request E ep opts w) of
        None \<Rightarrow> False
      | Some r \<Rightarrow>
          status r = 401 \<and>
          (case storage w ''refresh_token'' of
             None \<Rightarrow> False
           | Some rt \<Rightarrow> rt \<noteq> [] \<and> fst (refreshAccessToken E rt (after_first E ep opts w))))"

text \<open>The requests issued between two worlds.\<close>

definition issued :: "world \<Rightarrow> world \<Rightarrow> request list" where
  "issued w w' = drop (length (sent w)) (sent w')"

text \<open>What \<open>apiRequest\<close> leaves behind when the session has expired.\<close>

definition expired :: "(error + 'a) \<times> world \<Rightarrow> bool" where
  "expired res =
     (fst res = Inl (Error ''Session expired'')
      \<and> storage (snd res) ''access_token'' = None
      \<and> storage (snd res) ''refresh_token'' = None
      \<and> storage (snd res) ''user'' = None
      \<and> location_href (snd res) = ''/login'')"

subsection \<open>The object every method returns\<close>

record api_result =
  ok :: bool
  data :: json

text \<open>\<open>return { ok: response.ok, data: await response.json() }\<close>, after an awaited call.\<close>

definition ok_data :: "(error + response) \<times> world \<Rightarrow> (error + api_result) \<times> world" where
  "ok_data rw =
     (case rw of
        (Inl e, w) \<Rightarrow> (Inl e, w)
      | (Inr response, w) \<Rightarrow>
          (case response_json response of
             Inl e \<Rightarrow> (Inl e, w)
           | Inr d \<Rightarrow> (Inr \<lparr>ok = resp_ok response, data = d\<rparr>, w)))"

text \<open>
  \<open>JSON.stringify\<close> of an object literal: an entry whose value is \<open>undefined\<close> is
  left out. \<open>JSON.stringify(undefined)\<close> is \<open>undefined\<close>, which \<open>setItem\<close> stores as a string.
\<close>

definition js_object :: "(string \<times> jsval) list \<Rightarrow> json" where
  "js_object kvs = JObj (concat (map (\<lambda>(k, v). case v of None \<Rightarrow> [] | Some j \<Rightarrow> [(k, j)]) kvs))"

definition stringify_val :: "env \<Rightarrow> jsval \<Rightarrow> string" where
  "stringify_val E v = (case v of None \<Rightarrow> ''undefined'' | Some j \<Rightarrow> stringify E j)"

definition post :: "string \<Rightarrow> options" where
  "post b = \<lparr>opt_method = Some ''POST'', opt_body = Some b, opt_headers = []\<rparr>"

definition put :: "string \<Rightarrow> options" where
  "put b = \<lparr>opt_method = Some ''PUT'', opt_body = Some b, opt_headers = []\<rparr>"

subsection \<open>authAPI\<close>

definition auth_request :: "env \<Rightarrow> string \<Rightarrow> json \<Rightarrow> request" where
  "auth_request E endpoint payload =
     \<lparr>url = API_BASE_URL E @ endpoint, http_method = Some ''POST'',
      headers = [(''Content-Type'', ''application/json'')],
      body = Some (stringify E payload)\<rparr>"

text \<open>
  The common body of \<open>register\<close> and \<open>login\<close>: the arguments of \<open>setTokens\<close> are
  read before the call, \<open>data.user\<close> after it.
\<close>

definition store_session :: "env \<Rightarrow> request \<Rightarrow> world \<Rightarrow> (error + api_result) \<times> world" where
  "store_session E req w =
     (case fetch req w of
        (Inl e, w1) \<Rightarrow> (Inl e, w1)
      | (Inr response, w1) \<Rightarrow>
          (case response_json response of
             Inl e \<Rightarrow> (Inl e, w1)
           | Inr d \<Rightarrow>
               if resp_ok response then
                 (case get_prop (Some d) ''access_token'' of
                    Inl e \<Rightarrow> (Inl e, w1)
                  | Inr accessToken \<Rightarrow>
                 (case get_prop (Some d) ''refresh_token'' of
                    Inl e \<Rightarrow> (Inl e, w1)
                  | Inr refreshToken \<Rightarrow>
                 (let w2 = setTokens E accessToken refreshToken w1 in
                  case get_prop (Some d) ''user'' of
                    Inl e \<Rightarrow> (Inl e, w2)
                  | Inr user \<Rightarrow>
                      (Inr \<lparr>ok = resp_ok response, data = d\<rparr>,
                       w2\<lparr>storage := (storage w2)(''user'' \<mapsto> stringify_val E user)\<rparr>))))
               else (Inr \<lparr>ok = resp_ok response, data = d\<rparr>, w1)))"

definition authAPI_register :: "env \<Rightarrow> json \<Rightarrow> world \<Rightarrow> (error + api_result) \<times> world" where
  "authAPI_register E userData w = store_session E (auth_request E ''/auth/register'' userData) w"

definition authAPI_login :: "env \<Rightarrow> jsval \<Rightarrow> jsval \<Rightarrow> world \<Rightarrow> (error + api_result) \<times> world" where
  "authAPI_login E email password w =
     store_session E
       (auth_request E ''/auth/login'' (js_object [(''email'', email), (''password'', password)])) w"

definition authAPI_logout :: "world \<Rightarrow> world" where
  "authAPI_logout w = clearTokens w"

definition authAPI_isAuthenticated :: "world \<Rightarrow> bool" where
  "authAPI_isAuthenticated w = truthy_str (getToken w)"

text \<open>The requests of \<open>login\<close> and \<open>register\<close>.\<close>

definition login_request :: "env \<Rightarrow> jsval \<Rightarrow> jsval \<Rightarrow> request" where
  "login_request E email password =
     auth_request E ''/auth/login'' (js_object [(''email'', email), (''password'', password)])"

definition register_request :: "env \<Rightarrow> json \<Rightarrow> request" where
  "register_request E userData = auth_request E ''/auth/register'' userData"

text \<open>
  The outcome of \<open>login\<close> and \<open>register\<close> by the answer of the network, for the
  statement of their effect on local storage: the result \<open>res\<close> of a call made in the
  world \<open>w\<close> is as the answer prescribes.
\<close>

definition session_written :: "env \<Rightarrow> response option \<Rightarrow> world \<Rightarrow> (error + api_result) \<times> world \<Rightarrow> bool" where
  "session_written E answer w res =
     (case answer of
        None \<Rightarrow> fst res = Inl NetworkError \<and> storage (snd res) = storage w
      | Some r \<Rightarrow>
          (case json_body r of
             None \<Rightarrow> fst res = Inl SyntaxError \<and> storage (snd res) = storage w
           | Some d \<Rightarrow>
               if \<not> resp_ok r then
                 fst res = Inr \<lparr>ok = False, data = d\<rparr> \<and> storage (snd res) = storage w
               else if d = JNull then
                 fst res = Inl TypeError \<and> storage (snd res) = storage w
               else
                 fst res = Inr \<lparr>ok = True, data = d\<rparr>
                 \<and> storage (snd res) =
                     (let s1 = (storage w)(''access_token'' \<mapsto>
                                  js_string E (opt_prop (Some d) ''access_token''));
                          s2 = (if truthy (opt_prop (Some d) ''refresh_token'')
                                then s1(''refresh_token'' \<mapsto>
                                          js_string E (opt_prop (Some d) ''refresh_token''))
                                else s1)
                      in s2(''user'' \<mapsto> stringify_val E (opt_prop (Some d) ''user'')))))"

subsection \<open>receiptsAPI\<close>

definition receiptsAPI_create :: "env \<Rightarrow> json \<Rightarrow> world \<Rightarrow> (error + api_result) \<times> world" where
  "receiptsAPI_create E receiptData w = ok_data (apiRequest E ''/receipts'' (post (stringify E receiptData)) w)"

text \<open>
  \<open>URLSearchParams\<close> as the list of its pairs; \<open>`${params}`\<close> joins the encoded
  pairs with \<open>&\<close>.
\<close>

definition getAll_params ::
  "env \<Rightarrow> rat option \<Rightarrow> rat option \<Rightarrow> string option \<Rightarrow> string option \<Rightarrow> (string \<times> string) list" where
  "getAll_params E page perPage search status_arg =
     (let page' = (case page of None \<Rightarrow> 1 | Some p \<Rightarrow> p);
          perPage' = (case perPage of None \<Rightarrow> 20 | Some p \<Rightarrow> p);
          search' = (case search of None \<Rightarrow> [] | Some s \<Rightarrow> s);
          status' = (case status_arg of None \<Rightarrow> [] | Some s \<Rightarrow> s);
          params = [(''page'', num_str E page'), (''per_page'', num_str E perPage')];
          params = (if search' \<noteq> [] then params @ [(''search'', search')] else params);
          params = (if status' \<noteq> [] then params @ [(''status'', status')] else params)
      in params)"

definition query_string :: "env \<Rightarrow> (string \<times> string) list \<Rightarrow> string" where
  "query_string E params =
     join_with ''&'' (map (\<lambda>(k, v). url_encode E k @ ''='' @ url_encode E v) params)"

definition receiptsAPI_getAll ::
  "env \<Rightarrow> rat option \<Rightarrow> rat option \<Rightarrow> string option \<Rightarrow> string option \<Rightarrow> world
     \<Rightarrow> (error + api_result) \<times> world" where
  "receiptsAPI_getAll E page perPage search status_arg w =
     ok_data (apiRequest E
       (''/receipts?'' @ query_string E (getAll_params E page perPage search status_arg))
       no_options w)"

definition receiptsAPI_getById :: "env \<Rightarrow> jsval \<Rightarrow> world \<Rightarrow> (error + api_result) \<times> world" where
  "receiptsAPI_getById E rid w = ok_data (apiRequest E (''/receipts/'' @ js_string E rid) no_options w)"

definition receiptsAPI_update :: "env \<Rightarrow> jsval \<Rightarrow> json \<Rightarrow> world \<Rightarrow> (error + api_result) \<times> world" where
  "receiptsAPI_update E rid receiptData w =
     ok_data (apiRequest E (''/receipts/'' @ js_string E rid) (put (stringify E receiptData)) w)"

definition receiptsAPI_delete :: "env \<Rightarrow> jsval \<Rightarrow> world \<Rightarrow> (error + api_result) \<times> world" where
  "receiptsAPI_delete E rid w =
     ok_data (apiRequest E (''/receipts/'' @ js_string E rid)
       \<lparr>opt_method = Some ''DELETE'', opt_body = None, opt_headers = []\<rparr> w)"

definition receiptsAPI_getStats :: "env \<Rightarrow> world \<Rightarrow> (error + api_result) \<times> world" where
  "receiptsAPI_getStats E w = ok_data (apiRequest E ''/receipts/stats'' no_options w)"

subsection \<open>notificationsAPI\<close>

definition notificationsAPI_sendEmail :: "env \<Rightarrow> jsval \<Rightarrow> jsval \<Rightarrow> world \<Rightarrow> (error + api_result) \<times> world" where
  "notificationsAPI_sendEmail E receiptId email w =
     (let body = (if truthy email then js_object [(''email'', email)] else JObj [])
      in ok_data (apiRequest E (''/notifications/send-email/'' @ js_string E receiptId)
           (post (stringify E body)) w))"

definition notificationsAPI_sendSMS :: "env \<Rightarrow> jsval \<Rightarrow> jsval \<Rightarrow> world \<Rightarrow> (error + api_result) \<times> world" where
  "notificationsAPI_sendSMS E receiptId phone w =
     (let body = (if truthy phone then js_object [(''phone'', phone)] else JObj [])
      in ok_data (apiRequest E (''/notifications/send-sms/'' @ js_string E receiptId)
           (post (stringify E body)) w))"

definition notificationsAPI_sendBoth :: "env \<Rightarrow> jsval \<Rightarrow> jsval \<Rightarrow> jsval \<Rightarrow> world \<Rightarrow> (error + api_result) \<times> world" where
  "notificationsAPI_sendBoth E receiptId email phone w =
     (let body = js_object
            ((if truthy email then [(''email'', email)] else [])
             @ (if truthy phone then [(''phone'', phone)] else []))
      in ok_data (apiRequest E (''/notifications/send-both/'' @ js_string E receiptId)
           (post (stringify E body)) w))"

definition notificationsAPI_testEmail :: "env \<Rightarrow> jsval \<Rightarrow> world \<Rightarrow> (error + api_result) \<times> world" where
  "notificationsAPI_testEmail E email w =
     ok_data (apiRequest E ''/notifications/test-email''
       (post (stringify E (js_object [(''email'', email)]))) w)"

definition notificationsAPI_testSMS :: "env \<Rightarrow> jsval \<Rightarrow> world \<Rightarrow> (error + api_result) \<times> world" where
  "notificationsAPI_testSMS E phone w =
     ok_data (apiRequest E ''/notifications/test-sms''
       (post (stringify E (js_object [(''phone'', phone)]))) w)"

definition notificationsAPI_getConfig :: "env \<Rightarrow> world \<Rightarrow> (error + api_result) \<times> world" where
  "notificationsAPI_getConfig E w = ok_data (apiRequest E ''/notifications/config'' no_options w)"

subsection \<open>The methods of receiptsAPI and notificationsAPI, as one family\<close>

text \<open>
  A call of one of the twelve methods with its arguments; \<open>endpoint_of\<close> and
  \<open>options_of\<close> are the two arguments the method hands to \<open>apiRequest\<close>.
\<close>

datatype api_call =
    Create json
  | GetAll "rat option" "rat option" "string option" "string option"
  | GetById jsval
  | Update jsval json
  | Delete jsval
  | GetStats
  | SendEmail jsval jsval
  | SendSMS jsval jsval
  | SendBoth jsval jsval jsval
  | TestEmail jsval
  | TestSMS jsval
  | GetConfig

fun call :: "env \<Rightarrow> api_call \<Rightarrow> world \<Rightarrow> (error + api_result) \<times> world" where
  "call E (Create payload) = receiptsAPI_create E payload"
| "call E (GetAll page perPage search status_arg) = receiptsAPI_getAll E page perPage search status_arg"
| "call E (GetById rid) = receiptsAPI_getById E rid"
| "call E (Update rid payload) = receiptsAPI_update E rid payload"
| "call E (Delete rid) = receiptsAPI_delete E rid"
| "call E GetStats = receiptsAPI_getStats E"
| "call E (SendEmail receiptId email) = notificationsAPI_sendEmail E receiptId email"
| "call E (SendSMS receiptId phone) = notificationsAPI_sendSMS E receiptId phone"
| "call E (SendBoth receiptId email phone) = notificationsAPI_sendBoth E receiptId email phone"
| "call E (TestEmail email) = notificationsAPI_testEmail E email"
| "call E (TestSMS phone) = notificationsAPI_testSMS E phone"
| "call E GetConfig = notificationsAPI_getConfig E"

fun endpoint_of :: "env \<Rightarrow> api_call \<Rightarrow> string" where
  "endpoint_of E (Create payload) = ''/receipts''"
| "endpoint_of E (GetAll page perPage search status_arg) =
     ''/receipts?'' @ query_string E (getAll_params E page perPage search status_arg)"
| "endpoint_of E (GetById rid) = ''/receipts/'' @ js_string E rid"
| "endpoint_of E (Update rid payload) = ''/receipts/'' @ js_string E rid"
| "endpoint_of E (Delete rid) = ''/receipts/'' @ js_string E rid"
| "endpoint_of E GetStats = ''/receipts/stats''"
| "endpoint_of E (SendEmail receiptId email) = ''/notifications/send-email/'' @ js_string E receiptId"
| "endpoint_of E (SendSMS receiptId phone) = ''/notifications/send-sms/'' @ js_string E receiptId"
| "endpoint_of E (SendBoth receiptId email phone) = ''/notifications/send-both/'' @ js_string E receiptId"
| "endpoint_of E (TestEmail email) = ''/notifications/test-email''"
| "endpoint_of E (TestSMS phone) = ''/notifications/test-sms''"
| "endpoint_of E GetConfig = ''/notifications/config''"

fun options_of :: "env \<Rightarrow> api_call \<Rightarrow> options" where
  "options_of E (Create payload) = post (stringify E payload)"
| "options_of E (GetAll page perPage search status_arg) = no_options"
| "options_of E (GetById rid) = no_options"
| "options_of E (Update rid payload) = put (stringify E payload)"
| "options_of E (Delete rid) = \<lparr>opt_method = Some ''DELETE'', opt_body = None, opt_headers = []\<rparr>"
| "options_of E GetStats = no_options"
| "options_of E (SendEmail receiptId email) =
     post (stringify E (if truthy email then js_object [(''email'', email)] else JObj []))"
| "options_of E (SendSMS receiptId phone) =
     post (stringify E (if truthy phone then js_object [(''phone'', phone)] else JObj []))"
| "options_of E (SendBoth receiptId email phone) =
     post (stringify E (js_object
            ((if truthy email then [(''email'', email)] else [])
             @ (if truthy phone then [(''phone'', phone)] else []))))"
| "options_of E (TestEmail email) = post (stringify E (js_object [(''email'', email)]))"
| "options_of E (TestSMS phone) = post (stringify E (js_object [(''phone'', phone)]))"
| "options_of E GetConfig = no_options"

section \<open>The receipt form\<close>

record item =
  item_id :: nat
  item_name :: string
  quantity :: double
  price :: double

record form_state =
  customerName :: string
  customerEmail :: string
  transactionDate :: string
  items :: "item list"
  taxRate :: double
  nextId :: nat

definition blank_item :: "nat \<Rightarrow> item" where
  "blank_item n = \<lparr>item_id = n, item_name = [], quantity = Finite 1 0, price = Finite 0 0\<rparr>"

definition initial_form :: form_state where
  "initial_form =
     \<lparr>customerName = [], customerEmail = [], transactionDate = [],
      items = [blank_item 1], taxRate = Finite 5 1, nextId = 2\<rparr>"

text \<open>
  The totals, computed from the state on every render. The tax rate starts at 10, which
  is \<open>Finite 5 1\<close>, and 100 is \<open>Finite 25 2\<close>.
\<close>

definition sum_lines :: "item list \<Rightarrow> double" where
  "sum_lines xs =
     foldl (\<lambda>sum item. fadd sum (fmul (quantity item) (price item))) (Finite 0 0) xs"

definition subtotal :: "form_state \<Rightarrow> double" where
  "subtotal f = sum_lines (items f)"

definition tax :: "form_state \<Rightarrow> double" where
  "tax f = fdiv (fmul (subtotal f) (taxRate f)) (Finite 25 2)"

definition total :: "form_state \<Rightarrow> double" where
  "total f = fadd (subtotal f) (tax f)"

definition handleAddItem :: "form_state \<Rightarrow> form_state" where
  "handleAddItem f =
     f\<lparr>items := items f @ [blank_item (nextId f)], nextId := nextId f + 1\<rparr>"

definition handleRemoveItem :: "nat \<Rightarrow> form_state \<Rightarrow> form_state" where
  "handleRemoveItem n f =
     (if length (items f) > 1
      then f\<lparr>items := filter (\<lambda>item. item_id item \<noteq> n) (items f)\<rparr>
      else f)"

text \<open>The three fields the inputs of a line update.\<close>

datatype field_value = Name string | Quantity double | Price double

fun set_field :: "field_value \<Rightarrow> item \<Rightarrow> item" where
  "set_field (Name v) item = item\<lparr>item_name := v\<rparr>"
| "set_field (Quantity v) item = item\<lparr>quantity := v\<rparr>"
| "set_field (Price v) item = item\<lparr>price := v\<rparr>"

definition handleUpdateItem :: "nat \<Rightarrow> field_value \<Rightarrow> form_state \<Rightarrow> form_state" where
  "handleUpdateItem n v f =
     f\<lparr>items := map (\<lambda>item. if item_id item = n then set_field v item else item) (items f)\<rparr>"

text \<open>The object \<open>handleSubmit\<close> passes to \<open>onSubmit\<close>.\<close>

record submission =
  d_customerName :: string
  d_customerEmail :: string
  d_transactionDate :: string
  d_items :: "item list"
  d_subtotal :: double
  d_tax :: double
  d_total :: double
  d_taxRate :: double

text \<open>
  \<open>handleSubmit\<close>, with the callback \<open>onSubmit\<close> acting on the state \<open>s\<close> of the
  parent. The first component is the text of the alert, if one is raised.
\<close>

definition handleSubmit ::
  "(submission \<Rightarrow> 's \<Rightarrow> 's) \<Rightarrow> form_state \<Rightarrow> 's \<Rightarrow> string option \<times> form_state \<times> 's" where
  "handleSubmit onSubmit f s =
     (if customerName f = [] \<or> customerEmail f = [] \<or> transactionDate f = []
      then (Some ''Please fill in all customer details'', f, s)
      else if list_ex (\<lambda>item. item_name item = [] \<or> fle (price item) (Finite 0 0)) (items f)
      then (Some ''Please fill in all item details'', f, s)
      else
        (None,
         f\<lparr>customerName := [], customerEmail := [], transactionDate := [],
           items := [blank_item 1], nextId := 2\<rparr>,
         onSubmit
           \<lparr>d_customerName = customerName f, d_customerEmail = customerEmail f,
            d_transactionDate = transactionDate f, d_items = items f,
            d_subtotal = subtotal f, d_tax = tax f, d_total = total f,
            d_taxRate = taxRate f\<rparr> s))"

text \<open>What a user can do to the form, and the form after a sequence of such events.\<close>

datatype form_event =
    SetCustomerName string
  | SetCustomerEmail string
  | SetTransactionDate string
  | SetTaxRate double
  | AddItem
  | RemoveItem nat
  | UpdateItem nat field_value
  | Submit

text \<open>The parent state here is the list of the objects submitted so far.\<close>

fun form_step :: "form_state \<times> submission list \<Rightarrow> form_event \<Rightarrow> form_state \<times> submission list" where
  "form_step (f, out) (SetCustomerName v) = (f\<lparr>customerName := v\<rparr>, out)"
| "form_step (f, out) (SetCustomerEmail v) = (f\<lparr>customerEmail := v\<rparr>, out)"
| "form_step (f, out) (SetTransactionDate v) = (f\<lparr>transactionDate := v\<rparr>, out)"
| "form_step (f, out) (SetTaxRate v) = (f\<lparr>taxRate := v\<rparr>, out)"
| "form_step (f, out) AddItem = (handleAddItem f, out)"
| "form_step (f, out) (RemoveItem n) = (handleRemoveItem n f, out)"
| "form_step (f, out) (UpdateItem n v) = (handleUpdateItem n v f, out)"
| "form_step (f, out) Submit = snd (handleSubmit (\<lambda>d out. out @ [d]) f out)"

definition run_form :: "form_event list \<Rightarrow> form_state \<times> submission list" where
  "run_form evs = foldl form_step (initial_form, []) evs"

text \<open>
  What holds of the form in every state it can reach: there is a line, the ids of the
  lines are distinct, and they lie below \<open>nextId\<close>.
\<close>

definition form_inv :: "form_state \<Rightarrow> bool" where
  "form_inv f =
     (items f \<noteq> [] \<and> distinct (map item_id (items f))
      \<and> list_all (\<lambda>item. item_id item < nextId f) (items f))"

text \<open>
  The totals of a submitted object are those computed from its own lines and its own
  tax rate.
\<close>

definition totals_consistent :: "submission \<Rightarrow> bool" where
  "totals_consistent d =
     (d_subtotal d = sum_lines (d_items d)
      \<and> d_tax d = fdiv (fmul (d_subtotal d) (d_taxRate d)) (Finite 25 2)
      \<and> d_total d = fadd (d_subtotal d) (d_tax d))"

text \<open>
  No product and no partial sum of a run of \<open>sum_lines\<close> from \<open>acc\<close> is rounded:
  each is a finite number, and stands for the exact product or sum.
\<close>

fun unrounded :: "double \<Rightarrow> item list \<Rightarrow> bool" where
  "unrounded acc [] = True"
| "unrounded acc (item # xs) =
     (let p = fmul (quantity item) (price item); s = fadd acc p
      in is_finite p \<and> val p = val (quantity item) * val (price item)
         \<and> is_finite s \<and> val s = val acc + val p
         \<and> unrounded s xs)"

definition run_inv :: "form_state \<times> submission list \<Rightarrow> bool" where
  "run_inv p =
     (form_inv (fst p) \<and> list_all (\<lambda>d. d_items d \<noteq> [] \<and> totals_consistent d) (snd p))"

section \<open>The dashboard\<close>

text \<open>
  The object \<open>handleCreateReceipt\<close> builds: the submitted object and three more
  properties. It has no \<open>customerPhone\<close>: the form has no field for it.
\<close>

record form_data = submission +
  receiptNumber :: string
  timestamp :: nat
  receipt_status :: string

text \<open>
  What \<open>formData\<close> holds: the object of \<open>handleCreateReceipt\<close>, or a receipt of
  the list, which \<open>handleViewReceipt\<close> stores as the API delivered it.
\<close>

datatype preview = Composed form_data | Listed json

record dashboard =
  receipts :: jsval
  formData :: "preview option"
  showPreview :: bool
  toastMessage :: string
  isSending :: bool

definition initial_dashboard :: dashboard where
  "initial_dashboard =
     \<lparr>receipts = Some (JArr []), formData = None, showPreview = False, toastMessage = [],
      isSending = False\<rparr>"

text \<open>
  \<open>handleCreateReceipt\<close>; \<open>now\<close> is the value of \<open>Date.now()\<close> and \<open>date\<close> that of
  \<open>new Date()\<close>. The two state updates are kept apart.
\<close>

definition with_receipt_number :: "env \<Rightarrow> nat \<Rightarrow> nat \<Rightarrow> submission \<Rightarrow> form_data" where
  "with_receipt_number E now date d =
     submission.extend d
       (form_data.fields (''REC-'' @ num_str E (of_nat now)) date ''Not Sent'')"

definition setFormData :: "preview option \<Rightarrow> dashboard \<Rightarrow> dashboard" where
  "setFormData v dash = dash\<lparr>formData := v\<rparr>"

definition setShowPreview :: "bool \<Rightarrow> dashboard \<Rightarrow> dashboard" where
  "setShowPreview v dash = dash\<lparr>showPreview := v\<rparr>"

definition handleCreateReceipt :: "env \<Rightarrow> nat \<Rightarrow> nat \<Rightarrow> submission \<Rightarrow> dashboard \<Rightarrow> dashboard" where
  "handleCreateReceipt E now date d dash =
     setShowPreview True (setFormData (Some (Composed (with_receipt_number E now date d))) dash)"

definition handleViewReceipt :: "json \<Rightarrow> dashboard \<Rightarrow> dashboard" where
  "handleViewReceipt receipt dash = setShowPreview True (setFormData (Some (Listed receipt)) dash)"

definition handleClosePreview :: "dashboard \<Rightarrow> dashboard" where
  "handleClosePreview dash = setFormData None (setShowPreview False dash)"

text \<open>
  The page: the form, the dashboard and the browser. \<open>ReceiptForm\<close> is rendered with
  \<open>onSubmit = handleCreateReceipt\<close>, which touches the dashboard only.
\<close>

record page =
  page_form :: form_state
  page_dashboard :: dashboard
  page_browser :: world

definition submit_form :: "env \<Rightarrow> nat \<Rightarrow> nat \<Rightarrow> page \<Rightarrow> string option \<times> page" where
  "submit_form E now date p =
     (case handleSubmit (handleCreateReceipt E now date) (page_form p) (page_dashboard p) of
        (alert, f, dash') \<Rightarrow> (alert, p\<lparr>page_form := f, page_dashboard := dash'\<rparr>))"

subsection \<open>Sending a receipt\<close>

text \<open>The marks U+2713 and U+2717 at the head of a toast, as UTF-8 bytes.\<close>

definition check_mark :: string where
  "check_mark = [CHR 0xE2, CHR 0x9C, CHR 0x93]"

definition cross_mark :: string where
  "cross_mark = [CHR 0xE2, CHR 0x9C, CHR 0x97]"

datatype config_check = ConfigError string | ConfigWarning string | ConfigNull

text \<open>\<open>checkNotificationConfig\<close>: every exception is caught and gives \<open>null\<close>.\<close>

definition checkNotificationConfig :: "env \<Rightarrow> world \<Rightarrow> config_check \<times> world" where
  "checkNotificationConfig E w =
     (case notificationsAPI_getConfig E w of
        (Inl e, w1) \<Rightarrow> (ConfigNull, w1)
      | (Inr response, w1) \<Rightarrow>
          if ok response then
            (case get_prop (Some (data response)) ''email'' of
               Inl e \<Rightarrow> (ConfigNull, w1)
             | Inr email \<Rightarrow>
                 (case get_prop (Some (data response)) ''sms'' of
                    Inl e \<Rightarrow> (ConfigNull, w1)
                  | Inr sms \<Rightarrow>
                      if \<not> truthy (opt_prop email ''configured'')
                         \<and> \<not> truthy (opt_prop sms ''configured'')
                      then (ConfigError ''Email and SMS services are not configured. Please configure at least one service in your backend environment variables.'', w1)
                      else if \<not> truthy (opt_prop email ''configured'')
                      then (ConfigWarning ''Email service is not configured. Only SMS will be sent if phone number is available.'', w1)
                      else (ConfigNull, w1)))
          else (ConfigNull, w1))"

text \<open>
  \<open>receiptData\<close>, the object \<open>handleSendReceipt\<close> prepares for the backend. Its
  numbers and its items are kept as \<open>JSON.stringify\<close> writes them; only its
  \<open>customer_email\<close> and \<open>customer_phone\<close> are read otherwise.
\<close>

record receipt_data =
  customer_name :: jsval
  customer_email :: jsval
  customer_phone :: jsval
  transaction_date :: jsval
  rd_items :: "json list"
  rd_subtotal :: jsval
  tax_rate :: jsval
  rd_tax :: jsval
  rd_total :: jsval
  receipt_number :: jsval

definition item_json :: "item \<Rightarrow> json" where
  "item_json item =
     JObj [(''name'', JStr (item_name item)), (''quantity'', number_json (quantity item)),
           (''price'', number_json (price item))]"

text \<open>From a composed receipt: \<open>formData.customerPhone || null\<close> is \<open>null\<close>.\<close>

definition composed_data :: "form_data \<Rightarrow> receipt_data" where
  "composed_data fd =
     \<lparr>customer_name = Some (JStr (d_customerName fd)),
      customer_email = Some (JStr (d_customerEmail fd)),
      customer_phone = js_or None (Some JNull),
      transaction_date = Some (JStr (d_transactionDate fd)),
      rd_items = map item_json (d_items fd),
      rd_subtotal = Some (number_json (d_subtotal fd)),
      tax_rate = Some (number_json (d_taxRate fd)),
      rd_tax = Some (number_json (d_tax fd)),
      rd_total = Some (number_json (d_total fd)),
      receipt_number = Some (JStr (receiptNumber fd))\<rparr>"

text \<open>
  From a receipt of the list, which is truthy when this is reached: a property it does
  not have is \<open>undefined\<close>; \<open>formData.items.map\<close> throws unless \<open>items\<close> is an
  array, and so does reading a property of a \<open>null\<close> item.
\<close>

definition listed_item :: "json \<Rightarrow> json" where
  "listed_item x =
     js_object [(''name'', opt_prop (Some x) ''name''),
                (''quantity'', opt_prop (Some x) ''quantity''),
                (''price'', opt_prop (Some x) ''price'')]"

definition listed_data :: "json \<Rightarrow> error + receipt_data" where
  "listed_data j =
     (case opt_prop (Some j) ''items'' of
        Some (JArr xs) \<Rightarrow>
          if list_ex (\<lambda>x. x = JNull) xs then Inl TypeError
          else
            Inr \<lparr>customer_name = opt_prop (Some j) ''customerName'',
                 customer_email = opt_prop (Some j) ''customerEmail'',
                 customer_phone = js_or (opt_prop (Some j) ''customerPhone'') (Some JNull),
                 transaction_date = opt_prop (Some j) ''transactionDate'',
                 rd_items = map listed_item xs,
                 rd_subtotal = opt_prop (Some j) ''subtotal'',
                 tax_rate = opt_prop (Some j) ''taxRate'',
                 rd_tax = opt_prop (Some j) ''tax'',
                 rd_total = opt_prop (Some j) ''total'',
                 receipt_number = opt_prop (Some j) ''receiptNumber''\<rparr>
      | _ \<Rightarrow> Inl TypeError)"

fun receiptData :: "preview \<Rightarrow> error + receipt_data" where
  "receiptData (Composed fd) = Inr (composed_data fd)"
| "receiptData (Listed j) = listed_data j"

text \<open>The object as \<open>JSON.stringify\<close> receives it.\<close>

definition receipt_json :: "receipt_data \<Rightarrow> json" where
  "receipt_json rd =
     js_object
       [(''customer_name'', customer_name rd),
        (''customer_email'', customer_email rd),
        (''customer_phone'', customer_phone rd),
        (''transaction_date'', transaction_date rd),
        (''items'', Some (JArr (rd_items rd))),
        (''subtotal'', rd_subtotal rd),
        (''tax_rate'', tax_rate rd),
        (''tax'', rd_tax rd),
        (''total'', rd_total rd),
        (''receipt_number'', receipt_number rd)]"

text \<open>\<open>!formData\<close> is false of an object, and of a truthy receipt of the list.\<close>

fun preview_truthy :: "preview \<Rightarrow> bool" where
  "preview_truthy (Composed fd) = True"
| "preview_truthy (Listed j) = truthy (Some j)"

text \<open>\<open>new Error(v || fallback)\<close>: the message is the string of the value.\<close>

definition error_or :: "env \<Rightarrow> jsval \<Rightarrow> string \<Rightarrow> error" where
  "error_or E v fallback = Error (js_string E (js_or v (Some (JStr fallback))))"

text \<open>
  The email-only send, in both places where the source has it; they differ in the
  fallback message.
\<close>

definition email_only ::
  "env \<Rightarrow> jsval \<Rightarrow> jsval \<Rightarrow> string \<Rightarrow> world \<Rightarrow> (error + bool \<times> bool \<times> string) \<times> world" where
  "email_only E receiptId email fallback w =
     (case notificationsAPI_sendEmail E receiptId email w of
        (Inl e, w1) \<Rightarrow> (Inl e, w1)
      | (Inr emailResponse, w1) \<Rightarrow>
          if ok emailResponse then
            (case get_prop (Some (data emailResponse)) ''success'' of
               Inl e \<Rightarrow> (Inl e, w1)
             | Inr success \<Rightarrow>
                 if truthy success
                 then (Inr (True, False,
                        check_mark @ '' Receipt sent via email to '' @ js_string E email), w1)
                 else
                   (case get_prop (Some (data emailResponse)) ''error'' of
                      Inl e \<Rightarrow> (Inl e, w1)
                    | Inr err \<Rightarrow> (Inl (error_or E err fallback), w1)))
          else
            (case get_prop (Some (data emailResponse)) ''error'' of
               Inl e \<Rightarrow> (Inl e, w1)
             | Inr err \<Rightarrow> (Inl (error_or E err fallback), w1)))"

text \<open>
  Step 2 of \<open>handleSendReceipt\<close>: the result is \<open>(emailSent, smsSent, sendMessage)\<close>,
  or the exception thrown.
\<close>

definition send_notifications ::
  "env \<Rightarrow> jsval \<Rightarrow> jsval \<Rightarrow> jsval \<Rightarrow> world \<Rightarrow> (error + bool \<times> bool \<times> string) \<times> world" where
  "send_notifications E receiptId email phone w =
     (if truthy phone then
        (case notificationsAPI_sendBoth E receiptId email phone w of
           (Inl e, w1) \<Rightarrow> (Inl e, w1)
         | (Inr sendBothResponse, w1) \<Rightarrow>
             if ok sendBothResponse then
               (case get_prop (Some (data sendBothResponse)) ''results'' of
                  Inl e \<Rightarrow> (Inl e, w1)
                | Inr results \<Rightarrow>
                    (let emailSent = truthy (opt_prop (opt_prop results ''email'') ''sent'');
                         smsSent = truthy (opt_prop (opt_prop results ''sms'') ''sent'')
                     in if emailSent \<and> smsSent then
                          (Inr (emailSent, smsSent,
                             check_mark @ '' Receipt sent via email and SMS to ''
                               @ js_string E email), w1)
                        else if emailSent then
                          (Inr (emailSent, smsSent,
                             check_mark @ '' Receipt sent via email to '' @ js_string E email
                               @ '' (SMS failed: ''
                               @ js_string E (js_or (opt_prop (opt_prop results ''sms'') ''message'')
                                                (Some (JStr ''Unknown error'')))
                               @ '')''), w1)
                        else if smsSent then
                          (Inr (emailSent, smsSent,
                             check_mark @ '' Receipt sent via SMS (Email failed: ''
                               @ js_string E (js_or (opt_prop (opt_prop results ''email'') ''message'')
                                                (Some (JStr ''Unknown error'')))
                               @ '')''), w1)
                        else
                          (Inl (Error (''Failed to send: ''
                               @ js_string E (js_or (opt_prop (opt_prop results ''email'') ''message'')
                                                (Some (JStr ''Unknown error''))))), w1)))
             else email_only E receiptId email ''Failed to send receipt'' w1)
      else email_only E receiptId email ''Failed to send email'' w)"

definition loadReceipts :: "env \<Rightarrow> dashboard \<Rightarrow> world \<Rightarrow> dashboard \<times> world" where
  "loadReceipts E dash w =
     (case receiptsAPI_getAll E (Some 1) (Some 20) None None w of
        (Inl e, w1) \<Rightarrow> (dash, w1)
      | (Inr response, w1) \<Rightarrow>
          if ok response then
            (case get_prop (Some (data response)) ''receipts'' of
               Inl e \<Rightarrow> (dash, w1)
             | Inr rs \<Rightarrow> if truthy rs then (dash\<lparr>receipts := rs\<rparr>, w1) else (dash, w1))
          else (dash, w1))"

text \<open>Step 1 of \<open>handleSendReceipt\<close>: the receipt is created and its id read.\<close>

definition create_receipt :: "env \<Rightarrow> receipt_data \<Rightarrow> world \<Rightarrow> (error + jsval) \<times> world" where
  "create_receipt E rd w =
     (case receiptsAPI_create E (receipt_json rd) w of
        (Inl e, w1) \<Rightarrow> (Inl e, w1)
      | (Inr createResponse, w1) \<Rightarrow>
          if \<not> ok createResponse then
            (case get_prop (Some (data createResponse)) ''error'' of
               Inl e \<Rightarrow> (Inl e, w1)
             | Inr err \<Rightarrow> (Inl (error_or E err ''Failed to create receipt''), w1))
          else
            (case get_prop (Some (data createResponse)) ''receipt'' of
               Inl e \<Rightarrow> (Inl e, w1)
             | Inr receipt \<Rightarrow>
                 (let receiptId = js_or (opt_prop receipt ''id'') (opt_prop receipt ''_id'')
                  in if \<not> truthy receiptId
                     then (Inl (Error ''Failed to get receipt ID from response''), w1)
                     else (Inr receiptId, w1))))"

text \<open>The body of the \<open>try\<close> block, up to the message to show.\<close>

definition send_receipt :: "env \<Rightarrow> preview \<Rightarrow> world \<Rightarrow> (error + string) \<times> world" where
  "send_receipt E pv w =
     (case checkNotificationConfig E w of
        (ConfigError message, w1) \<Rightarrow> (Inl (Error message), w1)
      | (configCheck, w1) \<Rightarrow>
          (case receiptData pv of
             Inl e \<Rightarrow> (Inl e, w1)
           | Inr rd \<Rightarrow>
               (case create_receipt E rd w1 of
                  (Inl e, w2) \<Rightarrow> (Inl e, w2)
                | (Inr receiptId, w2) \<Rightarrow>
                    (case send_notifications E receiptId (customer_email rd)
                            (customer_phone rd) w2 of
                       (Inl e, w3) \<Rightarrow> (Inl e, w3)
                     | (Inr (emailSent, smsSent, sendMessage), w3) \<Rightarrow>
                         (Inr sendMessage, w3)))))"

definition error_message :: "env \<Rightarrow> error \<Rightarrow> string" where
  "error_message E e = (case e of Error m \<Rightarrow> m | _ \<Rightarrow> builtin_message E e)"

text \<open>
  \<open>handleSendReceipt\<close>. The timers that clear the toast after five seconds are not
  part of the state.
\<close>

definition handleSendReceipt :: "env \<Rightarrow> dashboard \<Rightarrow> world \<Rightarrow> dashboard \<times> world" where
  "handleSendReceipt E dash w =
     (case formData dash of
        None \<Rightarrow> (dash, w)
      | Some pv \<Rightarrow>
          if \<not> preview_truthy pv then (dash, w)
          else
          (let dash1 = dash\<lparr>isSending := True, toastMessage := []\<rparr> in
           case send_receipt E pv w of
             (Inr sendMessage, w1) \<Rightarrow>
               (case loadReceipts E (dash1\<lparr>toastMessage := sendMessage\<rparr>) w1 of
                  (dash2, w2) \<Rightarrow>
                    (dash2\<lparr>showPreview := False, formData := None, isSending := False\<rparr>, w2))
           | (Inl e, w1) \<Rightarrow>
               (dash1\<lparr>toastMessage :=
                         cross_mark @ '' Error: ''
                           @ (if error_message E e \<noteq> [] then error_message E e
                              else ''Failed to send receipt''),
                      isSending := False\<rparr>, w1)))"



section \<open>The protected route\<close>

text \<open>The value \<open>AuthProvider\<close> puts in the context, without its three functions.\<close>

record auth_context =
  user :: jsval
  loading :: bool
  isAuthenticated :: bool

definition AuthProvider_value :: "jsval \<Rightarrow> bool \<Rightarrow> auth_context" where
  "AuthProvider_value u l = \<lparr>user = u, loading = l, isAuthenticated = truthy u\<rparr>"

definition useAuth :: "auth_context option \<Rightarrow> error + auth_context" where
  "useAuth context =
     (case context of
        None \<Rightarrow> Inl (Error ''useAuth must be used within an AuthProvider'')
      | Some c \<Rightarrow> Inr c)"

datatype 'a element = Spinner | Navigate string bool | Children 'a

definition ProtectedRoute :: "auth_context option \<Rightarrow> 'a \<Rightarrow> error + 'a element" where
  "ProtectedRoute context children =
     (case useAuth context of
        Inl e \<Rightarrow> Inl e
      | Inr c \<Rightarrow>
          Inr (if loading c then Spinner
               else if \<not> isAuthenticated c then Navigate ''/login'' True
               else Children children))"

section \<open>An example environment\<close>

text \<open>
  A concrete platform for the examples below: decimal rendering of the whole part of a
  number, a compact \<open>JSON.stringify\<close> for strings without escapes, and the identity as
  URL encoding (what it is on letters, digits and \<open>-_.*\<close>).
\<close>

function dec_nat :: "nat \<Rightarrow> string" where
  "dec_nat n =
     (if n < 10 then [''0123456789'' ! n]
      else dec_nat (n div 10) @ [''0123456789'' ! (n mod 10)])"
  by pat_completeness auto
termination
  by (relation "measure id") auto

definition example_num_str :: "rat \<Rightarrow> string" where
  "example_num_str q = dec_nat (nat \<lfloor>q\<rfloor>)"

definition quoted :: "string \<Rightarrow> string" where
  "quoted s = [CHR 0x22] @ s @ [CHR 0x22]"

fun example_stringify :: "json \<Rightarrow> string" where
  "example_stringify JNull = ''null''"
| "example_stringify (JBool b) = (if b then ''true'' else ''false'')"
| "example_stringify (JNum n) = example_num_str n"
| "example_stringify (JStr s) = quoted s"
| "example_stringify (JArr xs) = ''['' @ join_with '','' (map example_stringify xs) @ '']''"
| "example_stringify (JObj kvs) =
     ''{'' @ join_with '','' (map (\<lambda>(k, v). quoted k @ '':'' @ example_stringify v) kvs) @ ''}''"

definition example_env :: env where
  "example_env =
     \<lparr>API_BASE_URL = ''http://localhost:5000/api'',
      num_str = example_num_str,
      stringify = example_stringify,
      url_encode = (\<lambda>s. s),
      builtin_message = (\<lambda>e. ''Failed to fetch'')\<rparr>"

text \<open>A network that answers the \<open>i\<close>-th request with the \<open>i\<close>-th entry of a script.\<close>

definition scripted :: "response option list \<Rightarrow> request list \<Rightarrow> request \<Rightarrow> response option" where
  "scripted script hist req =
     (if length hist < length script then script ! length hist else None)"

definition example_world :: "(string \<times> string) list \<Rightarrow> response option list \<Rightarrow> world" where
  "example_world kvs script =
     \<lparr>storage = map_of kvs, location_href = ''/'', sent = [], network = scripted script\<rparr>"

definition reply :: "nat \<Rightarrow> json \<Rightarrow> response option" where
  "reply code d = Some \<lparr>status = code, json_body = Some d\<rparr>"

text \<open>
  A session at the form: two lines are filled in, a third is added and removed. The
  numbers typed are 2, 2.5 and 4; the subtotal is 9, the tax 0.9 and the total 9.9,
  as doubles.
\<close>

definition example_events :: "form_event list" where
  "example_events =
     [SetCustomerName ''Ann'', SetCustomerEmail ''ann@example.com'',
      SetTransactionDate ''2025-12-03'',
      UpdateItem 1 (Name ''Tea''), UpdateItem 1 (Quantity (Finite 1 1)),
      UpdateItem 1 (Price (Finite 5 (- 1))),
      AddItem, UpdateItem 2 (Name ''Cake''), UpdateItem 2 (Price (Finite 1 2)),
      AddItem, RemoveItem 3, Submit]"

definition example_form :: form_state where
  "example_form =
     \<lparr>customerName = ''Ann'', customerEmail = ''ann@example.com'',
      transactionDate = ''2025-12-03'',
      items = [\<lparr>item_id = 1, item_name = ''Tea'', quantity = Finite 1 1,
                price = Finite 5 (- 1)\<rparr>],
      taxRate = Finite 5 1, nextId = 2\<rparr>"

definition example_submission :: submission where
  "example_submission =
     \<lparr>d_customerName = ''Ann'', d_customerEmail = ''ann@example.com'',
      d_transactionDate = ''2025-12-03'',
      d_items = [\<lparr>item_id = 1, item_name = ''Tea'', quantity = Finite 1 1,
                  price = Finite 5 (- 1)\<rparr>,
                 \<lparr>item_id = 2, item_name = ''Cake'', quantity = Finite 1 0,
                  price = Finite 1 2\<rparr>],
      d_subtotal = Finite 9 0, d_tax = Finite 8106479329266893 (- 53),
      d_total = Finite 5573204538870989 (- 49), d_taxRate = Finite 5 1\<rparr>"

text \<open>
  Two more sessions. In the first the prices typed are 0.1, 0.2 and 0.3, the doubles
  nearest to them. In the second the quantity is 10, the price \<open>1e308\<close> and the tax
  rate 0.
\<close>

definition tenth :: double where
  "tenth = Finite 3602879701896397 (- 55)"

definition fifth :: double where
  "fifth = Finite 3602879701896397 (- 54)"

definition three_tenths :: double where
  "three_tenths = Finite 5404319552844595 (- 54)"

definition rounding_events :: "form_event list" where
  "rounding_events =
     [SetCustomerName ''Ann'', SetCustomerEmail ''ann@example.com'',
      SetTransactionDate ''2025-12-03'',
      UpdateItem 1 (Name ''Pen''), UpdateItem 1 (Price tenth),
      AddItem, UpdateItem 2 (Name ''Ink''), UpdateItem 2 (Price fifth),
      AddItem, UpdateItem 3 (Name ''Pad''), UpdateItem 3 (Price three_tenths),
      Submit]"

definition overflow_events :: "form_event list" where
  "overflow_events =
     [SetCustomerName ''Ann'', SetCustomerEmail ''ann@example.com'',
      SetTransactionDate ''2025-12-03'', SetTaxRate (Finite 0 0),
      UpdateItem 1 (Name ''Ore''), UpdateItem 1 (Quantity (Finite 5 1)),
      UpdateItem 1 (Price (Finite 156575653125701 976)),
      Submit]"

text \<open>
  A page whose form is filled in, a receipt as the preview holds it, and a backend that
  answers the configuration check, the creation, the email and the reload.
\<close>

definition example_page :: page where
  "example_page =
     \<lparr>page_form = example_form, page_dashboard = initial_dashboard,
      page_browser = example_world [(''access_token'', ''tok'')] []\<rparr>"

definition example_receipt :: form_data where
  "example_receipt = with_receipt_number example_env 1764720000000 1764720000123 example_submission"

definition example_send_world :: world where
  "example_send_world =
     example_world [(''access_token'', ''tok'')]
       [reply 200 (JObj [(''email'', JObj [(''configured'', JBool True)]),
                         (''sms'', JObj [(''configured'', JBool False)])]),
        reply 201 (JObj [(''receipt'', JObj [(''id'', JStr ''r42'')])]),
        reply 200 (JObj [(''success'', JBool True)]),
        reply 200 (JObj [(''receipts'', JArr [JObj [(''id'', JStr ''r42'')]])])]"

text \<open>
  A receipt as the backend lists it, with the keys of the backend, and an object with
  the keys \<open>handleSendReceipt\<close> reads, among them \<open>customerPhone\<close>.
\<close>

definition example_listed :: json where
  "example_listed =
     JObj [(''id'', JStr ''r7''), (''receipt_number'', JStr ''REC-1764720000000''),
           (''customer_name'', JStr ''Ann''), (''customer_email'', JStr ''ann@example.com''),
           (''customer_phone'', JStr ''+15550100''), (''transaction_date'', JStr ''2025-12-03''),
           (''items'', JArr [JObj [(''name'', JStr ''Tea''), (''quantity'', JNum 2),
                                   (''price'', JNum (5 / 2))]]),
           (''subtotal'', JNum 5), (''tax_rate'', JNum 10), (''tax'', JNum (1 / 2)),
           (''total'', JNum (11 / 2)), (''status'', JStr ''created'')]"

definition example_with_phone :: json where
  "example_with_phone =
     JObj [(''customerName'', JStr ''Ann''), (''customerEmail'', JStr ''ann@example.com''),
           (''customerPhone'', JStr ''+15550100''), (''transactionDate'', JStr ''2025-12-03''),
           (''items'', JArr [JObj [(''name'', JStr ''Tea''), (''quantity'', JNum 2),
                                   (''price'', JNum (5 / 2))]]),
           (''subtotal'', JNum 5), (''taxRate'', JNum 10), (''tax'', JNum (1 / 2)),
           (''total'', JNum (11 / 2)), (''receiptNumber'', JStr ''REC-1764720000000'')]"

text \<open>
  The answers of a backend to the configuration check and to the creation, followed by
  the answers given.
\<close>

definition send_script :: "response option list \<Rightarrow> world" where
  "send_script answers =
     example_world [(''access_token'', ''tok'')]
       ([reply 200 (JObj [(''email'', JObj [(''configured'', JBool True)]),
                          (''sms'', JObj [(''configured'', JBool True)])]),
         reply 201 (JObj [(''receipt'', JObj [(''id'', JStr ''r42'')])])] @ answers)"

section \<open>Properties of the API service\<close>

lemma fetch_sent: "sent (snd (fetch req w)) = sent w @ [req]"
  by (simp add: fetch_def)

lemma refresh_sent: "sent (snd (refreshAccessToken E rt w)) = sent w @ [refresh_request E rt]"
  by (simp add: refreshAccessToken_def fetch_def split: option.splits sum.splits)


lemma refresh_true:
  assumes "refreshAccessToken E rt w = (True, w2)"
  shows "\<exists>r d tok. network w (sent w) (refresh_request E rt) = Some r \<and> resp_ok r
           \<and> json_body r = Some d \<and> get_prop (Some d) ''access_token'' = Inr tok
           \<and> storage w2 = (storage w)(''access_token'' \<mapsto> js_string E tok)"
  using assms
  by (auto simp add: refreshAccessToken_def fetch_def response_json_def split: option.splits sum.splits if_splits)

lemma session_expired_expired: "expired (session_expired w)"
  by (simp add: expired_def session_expired_def clearTokens_def)

lemma session_expired_sent: "sent (snd (session_expired w)) = sent w"
  by (simp add: session_expired_def clearTokens_def)

lemmas eval_defs = example_world_def example_env_def reply_def scripted_def
      fetch_def build_request_def request_headers_def spread_def getToken_def no_options_def
      refreshAccessToken_def refresh_request_def resp_ok_def response_json_def js_string_def
      bearer_def session_expired_def clearTokens_def Let_def issued_def expired_def


text \<open>
  Claim C1. A request made through \<open>apiRequest\<close> is answered 401. If a non-empty
  refresh token is stored, the refresh endpoint is called once, right after the
  original request; if that refresh succeeds, the original request is sent once more,
  its \<open>Authorization\<close> header carrying the access token the refresh has just stored,
  and the answer to that request is the result. If no refresh token is stored, or the
  refresh fails, the access token, the refresh token and the cached user are removed from
  local storage, the location becomes \<open>/login\<close> and \<open>Session expired\<close> is thrown.
\<close>

theorem apiRequest_on_401:
  assumes first: "network w (sent w) (build_request E endpoint options (request_headers options w)) = Some r"
      and unauth: "status r = 401"
  shows "(\<forall>rt. storage w ''refresh_token'' = Some rt \<and> rt \<noteq> [] \<longrightarrow>
            (let req0 = build_request E endpoint options (request_headers options w);
                 (refreshed, w2) = refreshAccessToken E rt (snd (fetch req0 w));
                 retry = build_request E endpoint options
                           (AList.update ''Authorization'' (bearer (getToken w2)) (request_headers options w));
                 res = apiRequest E endpoint options w
             in if refreshed
                then res = fetch retry w2
                   \<and> issued w (snd res) = [req0, refresh_request E rt, retry]
                   \<and> (\<exists>r2 d tok. network w (sent w @ [req0]) (refresh_request E rt) = Some r2
                          \<and> json_body r2 = Some d
                          \<and> get_prop (Some d) ''access_token'' = Inr tok
                          \<and> storage w2 ''access_token'' = Some (js_string E tok)
                          \<and> map_of (headers retry) ''Authorization''
                              = Some (''Bearer '' @ js_string E tok))
                else issued w (snd res) = [req0, refresh_request E rt] \<and> expired res))
       \<and> (\<not> truthy_str (storage w ''refresh_token'') \<longrightarrow>
            issued w (snd (apiRequest E endpoint options w))
              = [build_request E endpoint options (request_headers options w)]
            \<and> expired (apiRequest E endpoint options w))"
proof -
  let ?hs = "request_headers options w"
  let ?req0 = "build_request E endpoint options ?hs"
  let ?w1 = "w\<lparr>sent := sent w @ [?req0]\<rparr>"
  have f: "fetch ?req0 w = (Inr r, ?w1)"
    using first by (simp add: fetch_def)
  have w1: "snd (fetch ?req0 w) = ?w1" using f by simp
  have st1: "storage ?w1 = storage w" by simp
  have s1: "sent ?w1 = sent w @ [?req0]" by simp
  have none: "\<not> truthy_str (storage w ''refresh_token'') \<Longrightarrow>
      apiRequest E endpoint options w = session_expired ?w1"
    using f unauth st1
    by (cases "storage w ''refresh_token''") (simp_all add: apiRequest_def Let_def)
  have part2: "\<not> truthy_str (storage w ''refresh_token'') \<longrightarrow>
            issued w (snd (apiRequest E endpoint options w)) = [?req0]
            \<and> expired (apiRequest E endpoint options w)"
    using none s1 by (simp add: session_expired_expired session_expired_sent issued_def)
  have part1: "\<forall>rt. storage w ''refresh_token'' = Some rt \<and> rt \<noteq> [] \<longrightarrow>
            (let req0 = ?req0;
                 (refreshed, w2) = refreshAccessToken E rt (snd (fetch req0 w));
                 retry = build_request E endpoint options
                           (AList.update ''Authorization'' (bearer (getToken w2)) ?hs);
                 res = apiRequest E endpoint options w
             in if refreshed
                then res = fetch retry w2
                   \<and> issued w (snd res) = [req0, refresh_request E rt, retry]
                   \<and> (\<exists>r2 d tok. network w (sent w @ [req0]) (refresh_request E rt) = Some r2
                          \<and> json_body r2 = Some d
                          \<and> get_prop (Some d) ''access_token'' = Inr tok
                          \<and> storage w2 ''access_token'' = Some (js_string E tok)
                          \<and> map_of (headers retry) ''Authorization''
                              = Some (''Bearer '' @ js_string E tok))
                else issued w (snd res) = [req0, refresh_request E rt] \<and> expired res)"
  proof (intro allI impI)
    fix rt assume rt: "storage w ''refresh_token'' = Some rt \<and> rt \<noteq> []"
    obtain refreshed w2 where rf: "refreshAccessToken E rt ?w1 = (refreshed, w2)"
      by (cases "refreshAccessToken E rt ?w1")
    have s2: "sent w2 = sent w @ [?req0, refresh_request E rt]"
      using refresh_sent [of E rt ?w1] rf s1 by simp
    let ?retry = "build_request E endpoint options
                    (AList.update ''Authorization'' (bearer (getToken w2)) ?hs)"
    have api: "apiRequest E endpoint options w =
                 (if refreshed then fetch ?retry w2 else session_expired w2)"
      using f unauth st1 rt rf by (simp add: apiRequest_def Let_def)
    show "let req0 = ?req0;
                 (refreshed, w2) = refreshAccessToken E rt (snd (fetch req0 w));
                 retry = build_request E endpoint options
                           (AList.update ''Authorization'' (bearer (getToken w2)) ?hs);
                 res = apiRequest E endpoint options w
             in if refreshed
                then res = fetch retry w2
                   \<and> issued w (snd res) = [req0, refresh_request E rt, retry]
                   \<and> (\<exists>r2 d tok. network w (sent w @ [req0]) (refresh_request E rt) = Some r2
                          \<and> json_body r2 = Some d
                          \<and> get_prop (Some d) ''access_token'' = Inr tok
                          \<and> storage w2 ''access_token'' = Some (js_string E tok)
                          \<and> map_of (headers retry) ''Authorization''
                              = Some (''Bearer '' @ js_string E tok))
                else issued w (snd res) = [req0, refresh_request E rt] \<and> expired res"
    proof (cases refreshed)
      case True
      from refresh_true [of E rt ?w1 w2] rf True
      obtain r2 d tok where r2: "network w (sent w @ [?req0]) (refresh_request E rt) = Some r2"
        and d: "json_body r2 = Some d" and tok: "get_prop (Some d) ''access_token'' = Inr tok"
        and st2: "storage w2 ''access_token'' = Some (js_string E tok)" by auto
      have hdr: "map_of (headers ?retry) ''Authorization'' = Some (''Bearer '' @ js_string E tok)"
        using st2 by (simp add: build_request_def bearer_def getToken_def update_conv')
      have ex: "\<exists>r2 d tok. network w (sent w @ [?req0]) (refresh_request E rt) = Some r2
                          \<and> json_body r2 = Some d
                          \<and> get_prop (Some d) ''access_token'' = Inr tok
                          \<and> storage w2 ''access_token'' = Some (js_string E tok)
                          \<and> map_of (headers ?retry) ''Authorization''
                              = Some (''Bearer '' @ js_string E tok)"
        using r2 d tok st2 hdr by blast
      have iss: "issued w (snd (fetch ?retry w2)) = [?req0, refresh_request E rt, ?retry]"
        using s2 by (simp add: issued_def fetch_sent)
      show ?thesis
        using True rf api iss ex by (simp add: Let_def w1)
    next
      case False
      show ?thesis
        using False rf api s2
        by (simp add: Let_def issued_def session_expired_sent session_expired_expired w1)
    qed
  qed
  from part1 part2 show ?thesis by blast
qed



text \<open>
  Three runs: a refresh that succeeds, a refresh that is refused, and no refresh token.
\<close>

theorem apiRequest_on_401_witness:
  "(let w = example_world [(''access_token'', ''old''), (''refresh_token'', ''r1'')]
              [reply 401 (JObj []), reply 200 (JObj [(''access_token'', JStr ''new'')]),
               reply 200 (JObj [(''receipts'', JArr [])])];
        res = apiRequest example_env ''/receipts'' no_options w
    in fst res = Inr \<lparr>status = 200, json_body = Some (JObj [(''receipts'', JArr [])])\<rparr>
       \<and> map url (issued w (snd res))
           = [''http://localhost:5000/api/receipts'', ''http://localhost:5000/api/auth/refresh'',
              ''http://localhost:5000/api/receipts'']
       \<and> map (\<lambda>r. map_of (headers r) ''Authorization'') (issued w (snd res))
           = [Some ''Bearer old'', Some ''Bearer r1'', Some ''Bearer new'']
       \<and> storage (snd res) ''access_token'' = Some ''new'')
   \<and> (let w = example_world [(''access_token'', ''old''), (''refresh_token'', ''r1'')]
              [reply 401 (JObj []), reply 401 (JObj [])];
        res = apiRequest example_env ''/receipts'' no_options w
    in expired res \<and> length (issued w (snd res)) = 2)
   \<and> (let w = example_world [(''access_token'', ''old'')] [reply 401 (JObj [])];
        res = apiRequest example_env ''/receipts'' no_options w
    in expired res \<and> length (issued w (snd res)) = 1)"
proof -
  let ?r = "\<lparr>status = 401, json_body = Some (JObj [])\<rparr>"
  let ?wa = "example_world [(''access_token'', ''old''), (''refresh_token'', ''r1'')]
              [reply 401 (JObj []), reply 200 (JObj [(''access_token'', JStr ''new'')]),
               reply 200 (JObj [(''receipts'', JArr [])])]"
  let ?wb = "example_world [(''access_token'', ''old''), (''refresh_token'', ''r1'')]
              [reply 401 (JObj []), reply 401 (JObj [])]"
  let ?wc = "example_world [(''access_token'', ''old'')] [reply 401 (JObj [])]"
  have a: "network ?wa (sent ?wa)
             (build_request example_env ''/receipts'' no_options (request_headers no_options ?wa)) = Some ?r"
    by (simp add: example_world_def scripted_def reply_def)
  have b: "network ?wb (sent ?wb)
             (build_request example_env ''/receipts'' no_options (request_headers no_options ?wb)) = Some ?r"
    by (simp add: example_world_def scripted_def reply_def)
  have c: "network ?wc (sent ?wc)
             (build_request example_env ''/receipts'' no_options (request_headers no_options ?wc)) = Some ?r"
    by (simp add: example_world_def scripted_def reply_def)
  have u: "status ?r = 401" by simp
  have A: "storage ?wa ''refresh_token'' = Some ''r1''" by (simp add: example_world_def)
  have B: "storage ?wb ''refresh_token'' = Some ''r1''" by (simp add: example_world_def)
  have C: "\<not> truthy_str (storage ?wc ''refresh_token'')" by (simp add: example_world_def)
  show ?thesis
    using apiRequest_on_401 [OF a u] apiRequest_on_401 [OF b u] apiRequest_on_401 [OF c u]
    by (simp add: eval_defs update_conv')
qed

subsection \<open>The runs of \<open>apiRequest\<close>\<close>




lemma apiRequest_cases [case_names net_fail plain no_token refresh_failed retried]:
  obtains
    "network w (sent w) (first_request E ep opts w) = None"
    "apiRequest E ep opts w = (Inl NetworkError, after_first E ep opts w)"
  | r where "network w (sent w) (first_request E ep opts w) = Some r" "status r \<noteq> 401"
      "apiRequest E ep opts w = (Inr r, after_first E ep opts w)"
  | r where "network w (sent w) (first_request E ep opts w) = Some r" "status r = 401"
      "\<not> truthy_str (storage w ''refresh_token'')"
      "apiRequest E ep opts w = session_expired (after_first E ep opts w)"
  | r rt w2 where "network w (sent w) (first_request E ep opts w) = Some r" "status r = 401"
      "storage w ''refresh_token'' = Some rt" "rt \<noteq> []"
      "refreshAccessToken E rt (after_first E ep opts w) = (False, w2)"
      "apiRequest E ep opts w = session_expired w2"
  | r rt w2 where "network w (sent w) (first_request E ep opts w) = Some r" "status r = 401"
      "storage w ''refresh_token'' = Some rt" "rt \<noteq> []"
      "refreshAccessToken E rt (after_first E ep opts w) = (True, w2)"
      "apiRequest E ep opts w = fetch (retry_request E ep opts w w2) w2"
proof (cases "network w (sent w) (first_request E ep opts w)")
  case None
  then show ?thesis using that(1) by (simp add: apiRequest_def Let_def fetch_def)
next
  case (Some r)
  show ?thesis
  proof (cases "status r = 401")
    case False
    then show ?thesis using Some that(2) by (simp add: apiRequest_def Let_def fetch_def)
  next
    case True
    show ?thesis
    proof (cases "storage w ''refresh_token''")
      case None
      then show ?thesis using Some True that(3)
        by (simp add: apiRequest_def Let_def fetch_def)
    next
      case rt: (Some rt)
      show ?thesis
      proof (cases "rt = []")
        case True
        then show ?thesis using Some \<open>status r = 401\<close> rt that(3)
          by (simp add: apiRequest_def Let_def fetch_def)
      next
        case False
        obtain b w2 where rf: "refreshAccessToken E rt (after_first E ep opts w) = (b, w2)"
          by (cases "refreshAccessToken E rt (after_first E ep opts w)")
        show ?thesis
        proof (cases b)
          case True
          then show ?thesis using Some \<open>status r = 401\<close> rt False rf that(5)
            by (simp add: apiRequest_def Let_def fetch_def)
        next
          case b: False
          then show ?thesis using Some \<open>status r = 401\<close> rt False rf that(4)
            by (simp add: apiRequest_def Let_def fetch_def)
        qed
      qed
    qed
  qed
qed

lemma refresh_sent': "refreshAccessToken E rt w = (b, w2) \<Longrightarrow> sent w2 = sent w @ [refresh_request E rt]"
  using refresh_sent [of E rt w] by simp


lemma apiRequest_sent:
  "\<exists>xs. sent (snd (apiRequest E ep opts w)) = sent w @ first_request E ep opts w # xs
        \<and> (xs = [] \<or> (\<exists>rt. xs = [refresh_request E rt])
            \<or> (\<exists>rt hs. xs = [refresh_request E rt, build_request E ep opts hs]))"
proof (cases rule: apiRequest_cases [of w E ep opts])
  case net_fail then show ?thesis by simp
next
  case (plain r) then show ?thesis by simp
next
  case (no_token r) then show ?thesis by (simp add: session_expired_sent)
next
  case (refresh_failed r rt w2)
  then show ?thesis using refresh_sent' [OF refresh_failed(5)] by (auto simp add: session_expired_sent)
next
  case (retried r rt w2)
  then show ?thesis using refresh_sent' [OF retried(5)] by (auto simp add: fetch_sent)
qed



lemma call_ok_data: "call E c w = ok_data (apiRequest E (endpoint_of E c) (options_of E c) w)"
  by (cases c)
     (simp_all add: receiptsAPI_create_def receiptsAPI_getAll_def receiptsAPI_getById_def
        receiptsAPI_update_def receiptsAPI_delete_def receiptsAPI_getStats_def
        notificationsAPI_sendEmail_def notificationsAPI_sendSMS_def notificationsAPI_sendBoth_def
        notificationsAPI_testEmail_def notificationsAPI_testSMS_def notificationsAPI_getConfig_def
        Let_def)

lemma ok_data_world: "snd (ok_data x) = snd x"
  by (simp add: ok_data_def split: prod.splits sum.splits)






subsection \<open>Listing receipts\<close>

lemma effective_method_refresh [simp]: "effective_method (refresh_request E rt) = ''POST''"
  by (simp add: effective_method_def refresh_request_def)

lemma effective_method_build [simp]:
  "effective_method (build_request E ep opts hs)
     = (case opt_method opts of None \<Rightarrow> ''GET'' | Some m \<Rightarrow> m)"
  by (simp add: effective_method_def build_request_def)

lemma url_build [simp]: "url (build_request E ep opts hs) = API_BASE_URL E @ ep"
  by (simp add: build_request_def)

lemma apiRequest_gets:
  assumes "opt_method opts = None"
  shows "\<exists>gets. filter (\<lambda>r. effective_method r = ''GET'') (issued w (snd (apiRequest E ep opts w))) = gets
     \<and> length gets = (if retried E ep opts w then 2 else 1)
     \<and> (\<forall>r \<in> set gets. url r = API_BASE_URL E @ ep)"
proof (cases rule: apiRequest_cases [of w E ep opts])
  case net_fail then show ?thesis using assms by (simp add: issued_def retried_def)
next
  case (plain r) then show ?thesis using assms by (simp add: issued_def retried_def)
next
  case (no_token r) then show ?thesis using assms
    by (cases "storage w ''refresh_token''") (simp_all add: issued_def retried_def session_expired_sent)
next
  case (refresh_failed r rt w2)
  then show ?thesis using assms refresh_sent' [OF refresh_failed(5)]
    by (simp add: issued_def retried_def session_expired_sent)
next
  case (retried r rt w2)
  then show ?thesis using assms refresh_sent' [OF retried(5)]
    by (simp add: issued_def retried_def fetch_sent)
qed

lemmas getAll_eval = receiptsAPI_getAll_def getAll_params_def query_string_def ok_data_def
  apiRequest_def effective_method_def example_num_str_def

text \<open>
  The claim C7 as stated, "exactly one GET request is issued", fails when the access
  token has expired: the first GET is answered 401, the refresh succeeds and the GET is
  sent again.
\<close>

theorem getAll_requests_counterexample:
  "(let w = example_world [(''access_token'', ''old''), (''refresh_token'', ''r1'')]
              [reply 401 (JObj []), reply 200 (JObj [(''access_token'', JStr ''new'')]),
               reply 200 (JObj [(''receipts'', JArr [])])];
        res = receiptsAPI_getAll example_env None None None None w
    in map (\<lambda>r. (effective_method r, url r)) (issued w (snd res))
         = [(''GET'', ''http://localhost:5000/api/receipts?page=1&per_page=20''),
            (''POST'', ''http://localhost:5000/api/auth/refresh''),
            (''GET'', ''http://localhost:5000/api/receipts?page=1&per_page=20'')]
       \<and> length (filter (\<lambda>r. effective_method r = ''GET'') (issued w (snd res))) = 2
       \<and> fst res = Inr \<lparr>ok = True, data = JObj [(''receipts'', JArr [])]\<rparr>)"
  by (simp add: eval_defs getAll_eval)

text \<open>
  Claim C7, amended. A call \<open>receiptsAPI.getAll(page, perPage, search, status)\<close>
  issues one GET request, and a second one exactly when the first is answered 401 and
  the token refresh succeeds; every GET goes to \<open>/receipts\<close> with the same query
  string. The query string always has \<open>page\<close> and \<open>per_page\<close> (1 and 20 when
  omitted), has \<open>search\<close> exactly when that argument is non-empty and \<open>status\<close>
  exactly when that argument is non-empty. The last response is returned as
  \<open>{ok, data}\<close>, unmodified, when its body is JSON; an exception of \<open>apiRequest\<close>
  or of \<open>response.json()\<close> is passed on.
\<close>

theorem getAll_requests:
  "(let params = getAll_params E page perPage search status_arg;
        ep = ''/receipts?'' @ query_string E params;
        res = receiptsAPI_getAll E page perPage search status_arg w;
        gets = filter (\<lambda>r. effective_method r = ''GET'') (issued w (snd res))
    in map_of params ''page'' = Some (num_str E (case page of None \<Rightarrow> 1 | Some p \<Rightarrow> p))
     \<and> map_of params ''per_page'' = Some (num_str E (case perPage of None \<Rightarrow> 20 | Some p \<Rightarrow> p))
     \<and> (''search'' \<in> fst ` set params \<longleftrightarrow> (\<exists>s. search = Some s \<and> s \<noteq> []))
     \<and> (''status'' \<in> fst ` set params \<longleftrightarrow> (\<exists>s. status_arg = Some s \<and> s \<noteq> []))
     \<and> (\<forall>s. search = Some s \<and> s \<noteq> [] \<longrightarrow> map_of params ''search'' = Some s)
     \<and> (\<forall>s. status_arg = Some s \<and> s \<noteq> [] \<longrightarrow> map_of params ''status'' = Some s)
     \<and> length gets = (if retried E ep no_options w then 2 else 1)
     \<and> (\<forall>r \<in> set gets. url r = API_BASE_URL E @ ''/receipts?'' @ query_string E params)
     \<and> (case apiRequest E ep no_options w of
          (Inl e, w1) \<Rightarrow> res = (Inl e, w1)
        | (Inr response, w1) \<Rightarrow>
            (case json_body response of
               None \<Rightarrow> res = (Inl SyntaxError, w1)
             | Some d \<Rightarrow> res = (Inr \<lparr>ok = resp_ok response, data = d\<rparr>, w1))))"
proof -
  let ?params = "getAll_params E page perPage search status_arg"
  let ?ep = "''/receipts?'' @ query_string E ?params"
  let ?res = "receiptsAPI_getAll E page perPage search status_arg w"
  have p1: "map_of ?params ''page'' = Some (num_str E (case page of None \<Rightarrow> 1 | Some p \<Rightarrow> p))"
    by (simp add: getAll_params_def Let_def)
  have p2: "map_of ?params ''per_page'' = Some (num_str E (case perPage of None \<Rightarrow> 20 | Some p \<Rightarrow> p))"
    by (simp add: getAll_params_def Let_def)
  have p3: "''search'' \<in> fst ` set ?params \<longleftrightarrow> (\<exists>s. search = Some s \<and> s \<noteq> [])"
    by (cases search) (auto simp add: getAll_params_def Let_def)
  have p4: "''status'' \<in> fst ` set ?params \<longleftrightarrow> (\<exists>s. status_arg = Some s \<and> s \<noteq> [])"
    by (cases status_arg) (auto simp add: getAll_params_def Let_def)
  have p5: "\<forall>s. search = Some s \<and> s \<noteq> [] \<longrightarrow> map_of ?params ''search'' = Some s"
    by (simp add: getAll_params_def Let_def)
  have p6: "\<forall>s. status_arg = Some s \<and> s \<noteq> [] \<longrightarrow> map_of ?params ''status'' = Some s"
    by (simp add: getAll_params_def Let_def)
  have res: "?res = ok_data (apiRequest E ?ep no_options w)"
    by (simp add: receiptsAPI_getAll_def)
  have snd_ok: "\<And>x. sent (snd (ok_data x)) = sent (snd x)"
    by (simp add: ok_data_def split: prod.splits sum.splits)
  have iss: "issued w (snd ?res) = issued w (snd (apiRequest E ?ep no_options w))"
    by (simp add: res issued_def snd_ok)
  from apiRequest_gets [of no_options w E ?ep]
  have g: "length (filter (\<lambda>r. effective_method r = ''GET'') (issued w (snd ?res)))
             = (if retried E ?ep no_options w then 2 else 1)
          \<and> (\<forall>r \<in> set (filter (\<lambda>r. effective_method r = ''GET'') (issued w (snd ?res))).
                url r = API_BASE_URL E @ ?ep)"
    by (simp add: iss no_options_def)
  have r: "(case apiRequest E ?ep no_options w of
          (Inl e, w1) \<Rightarrow> ?res = (Inl e, w1)
        | (Inr response, w1) \<Rightarrow>
            (case json_body response of
               None \<Rightarrow> ?res = (Inl SyntaxError, w1)
             | Some d \<Rightarrow> ?res = (Inr \<lparr>ok = resp_ok response, data = d\<rparr>, w1)))"
    by (simp add: res ok_data_def response_json_def split: prod.splits sum.splits option.splits)
  show ?thesis
    unfolding Let_def using p1 p2 p3 p4 p5 p6 g r by blast
qed


text \<open>A filtered page with a valid token, and the default page with an expired one.\<close>

theorem getAll_requests_witness:
  "(let w = example_world [(''access_token'', ''tok'')]
              [reply 200 (JObj [(''receipts'', JArr [])])];
        res = receiptsAPI_getAll example_env (Some 2) None (Some ''tea'') (Some ''sent'') w
    in map url (issued w (snd res))
         = [''http://localhost:5000/api/receipts?page=2&per_page=20&search=tea&status=sent'']
       \<and> res = (Inr \<lparr>ok = True, data = JObj [(''receipts'', JArr [])]\<rparr>,
                 w\<lparr>sent := issued w (snd res)\<rparr>))
   \<and> (let w = example_world [(''access_token'', ''old''), (''refresh_token'', ''r1'')]
              [reply 401 (JObj []), reply 200 (JObj [(''access_token'', JStr ''new'')]),
               reply 200 (JObj [(''receipts'', JArr [])])];
          res = receiptsAPI_getAll example_env None None None None w
      in length (filter (\<lambda>r. effective_method r = ''GET'') (issued w (snd res))) = 2)"
proof -
  let ?w1 = "example_world [(''access_token'', ''tok'')]
              [reply 200 (JObj [(''receipts'', JArr [])])]"
  let ?w2 = "example_world [(''access_token'', ''old''), (''refresh_token'', ''r1'')]
              [reply 401 (JObj []), reply 200 (JObj [(''access_token'', JStr ''new'')]),
               reply 200 (JObj [(''receipts'', JArr [])])]"
  have r2: "retried example_env ''/receipts?page=1&per_page=20'' no_options ?w2"
    by (simp add: retried_def eval_defs)
  have q2: "query_string example_env (getAll_params example_env None None None None)
              = ''page=1&per_page=20''"
    by (simp add: eval_defs getAll_eval)
  from getAll_requests [of example_env None None None None ?w2] r2 q2
  have two: "length (filter (\<lambda>r. effective_method r = ''GET'')
               (issued ?w2 (snd (receiptsAPI_getAll example_env None None None None ?w2)))) = 2"
    by (simp add: Let_def)
  have q1: "query_string example_env (getAll_params example_env (Some 2) None (Some ''tea'') (Some ''sent''))
              = ''page=2&per_page=20&search=tea&status=sent''"
    by (simp add: eval_defs getAll_eval)
  have a1: "apiRequest example_env ''/receipts?page=2&per_page=20&search=tea&status=sent'' no_options ?w1
      = (Inr \<lparr>status = 200, json_body = Some (JObj [(''receipts'', JArr [])])\<rparr>,
         ?w1\<lparr>sent := [\<lparr>url = ''http://localhost:5000/api/receipts?page=2&per_page=20&search=tea&status=sent'',
                        http_method = None,
                        headers = [(''Content-Type'', ''application/json''),
                                  (''Authorization'', ''Bearer tok'')],
                        body = None\<rparr>]\<rparr>)"
    by (simp add: eval_defs apiRequest_def)
  from getAll_requests [of example_env "Some 2" None "Some ''tea''" "Some ''sent''" ?w1] q1 a1
  have one: "receiptsAPI_getAll example_env (Some 2) None (Some ''tea'') (Some ''sent'') ?w1
      = (Inr \<lparr>ok = True, data = JObj [(''receipts'', JArr [])]\<rparr>,
         ?w1\<lparr>sent := [\<lparr>url = ''http://localhost:5000/api/receipts?page=2&per_page=20&search=tea&status=sent'',
                        http_method = None,
                        headers = [(''Content-Type'', ''application/json''),
                                  (''Authorization'', ''Bearer tok'')],
                        body = None\<rparr>]\<rparr>)"
    by (simp add: Let_def resp_ok_def)
  show ?thesis
    using one two by (simp add: Let_def issued_def example_world_def)
qed

subsection \<open>Logging in and registering\<close>

lemma get_prop_not_null: "d \<noteq> JNull \<Longrightarrow> get_prop (Some d) k = Inr (opt_prop (Some d) k)"
  by (cases d) simp_all

lemma store_session_written:
  "session_written E (network w (sent w) req) w (store_session E req w)"
proof (cases "network w (sent w) req")
  case None
  then show ?thesis by (simp add: session_written_def store_session_def fetch_def)
next
  case (Some r)
  show ?thesis
  proof (cases "json_body r")
    case None
    with Some show ?thesis
      by (simp add: session_written_def store_session_def fetch_def response_json_def)
  next
    case d: (Some d)
    show ?thesis
    proof (cases "d = JNull")
      case True
      with Some d show ?thesis
        by (simp add: session_written_def store_session_def fetch_def response_json_def)
    next
      case False
      with Some d show ?thesis
        by (simp add: session_written_def store_session_def fetch_def response_json_def
            get_prop_not_null setTokens_def Let_def)
    qed
  qed
qed

lemmas auth_eval = authAPI_login_def authAPI_register_def store_session_def auth_request_def
  setTokens_def js_object_def stringify_val_def quoted_def

text \<open>
  The claim C10 as stated fails in two ways. An ok response whose body has no
  \<open>refresh_token\<close>, or an empty one, leaves the stored refresh token as it was:
  \<open>setTokens\<close> writes it only when it is truthy. And a not-ok response whose body is
  not JSON makes \<open>response.json()\<close> throw.
\<close>

theorem login_register_storage_counterexample:
  "(let w = example_world [(''refresh_token'', ''stale'')]
              [reply 200 (JObj [(''access_token'', JStr ''a1''), (''user'', JObj [])])];
        res = authAPI_login example_env (Some (JStr ''u@x.y'')) (Some (JStr ''secret'')) w
    in fst res = Inr \<lparr>ok = True, data = JObj [(''access_token'', JStr ''a1''), (''user'', JObj [])]\<rparr>
       \<and> storage (snd res) ''access_token'' = Some ''a1''
       \<and> storage (snd res) ''user'' = Some ''{}''
       \<and> storage (snd res) ''refresh_token'' = Some ''stale'')
   \<and> (let w = example_world []
              [reply 200 (JObj [(''access_token'', JStr ''a1''), (''refresh_token'', JStr []),
                                (''user'', JObj [])])];
          res = authAPI_register example_env (JObj [(''email'', JStr ''u@x.y'')]) w
      in fst res = Inr \<lparr>ok = True,
             data = JObj [(''access_token'', JStr ''a1''), (''refresh_token'', JStr []),
                          (''user'', JObj [])]\<rparr>
         \<and> storage (snd res) ''access_token'' = Some ''a1''
         \<and> storage (snd res) ''refresh_token'' = None)
   \<and> (let w = example_world []
              [Some \<lparr>status = 502, json_body = None\<rparr>];
          res = authAPI_login example_env (Some (JStr ''u@x.y'')) (Some (JStr ''secret'')) w
      in fst res = Inl SyntaxError)"
  by (simp add: eval_defs auth_eval)

text \<open>
  Claim C10, amended. \<open>authAPI.login\<close> and \<open>authAPI.register\<close> issue one request.
  When the response is ok and its body is JSON other than \<open>null\<close>, the access token
  and the serialized user of the body are written to local storage, the refresh token
  of the body is written when it is truthy, and \<open>{ok: true, data}\<close> is returned. In
  every other case local storage is left unchanged: a not-ok response with a JSON body
  gives \<open>{ok: false, data}\<close> and no exception; a rejected \<open>fetch\<close>, a body that is
  not JSON and a \<open>null\<close> body throw.
\<close>

theorem login_register_storage:
  "session_written E (network w (sent w) (login_request E email password)) w
     (authAPI_login E email password w)
   \<and> session_written E (network w (sent w) (register_request E userData)) w
        (authAPI_register E userData w)
   \<and> issued w (snd (authAPI_login E email password w)) = [login_request E email password]
   \<and> issued w (snd (authAPI_register E userData w)) = [register_request E userData]"
proof -
  have s: "\<And>req. sent (snd (store_session E req w)) = sent w @ [req]"
    by (simp add: store_session_def fetch_def Let_def setTokens_def
        split: option.splits sum.splits)
  show ?thesis
    using store_session_written [of E w "login_request E email password"]
          store_session_written [of E w "register_request E userData"]
    by (simp add: authAPI_login_def authAPI_register_def login_request_def register_request_def
        issued_def s)
qed

text \<open>A login that succeeds and a login that is refused.\<close>

theorem login_register_storage_witness:
  "(let w = example_world [(''refresh_token'', ''stale'')]
              [reply 200 (JObj [(''access_token'', JStr ''a1''), (''refresh_token'', JStr ''r1''),
                                (''user'', JObj [])])];
        res = authAPI_login example_env (Some (JStr ''u@x.y'')) (Some (JStr ''secret'')) w
    in fst res = Inr \<lparr>ok = True,
             data = JObj [(''access_token'', JStr ''a1''), (''refresh_token'', JStr ''r1''),
                          (''user'', JObj [])]\<rparr>
       \<and> storage (snd res) ''access_token'' = Some ''a1''
       \<and> storage (snd res) ''refresh_token'' = Some ''r1''
       \<and> storage (snd res) ''user'' = Some ''{}'')
   \<and> (let w = example_world [(''access_token'', ''a0''), (''refresh_token'', ''r0'')]
              [reply 401 (JObj [(''error'', JStr ''Invalid credentials'')])];
          res = authAPI_login example_env (Some (JStr ''u@x.y'')) (Some (JStr ''wrong'')) w
      in fst res = Inr \<lparr>ok = False, data = JObj [(''error'', JStr ''Invalid credentials'')]\<rparr>
         \<and> storage (snd res) = storage w)"
proof -
  let ?wa = "example_world [(''refresh_token'', ''stale'')]
              [reply 200 (JObj [(''access_token'', JStr ''a1''), (''refresh_token'', JStr ''r1''),
                                (''user'', JObj [])])]"
  let ?wb = "example_world [(''access_token'', ''a0''), (''refresh_token'', ''r0'')]
              [reply 401 (JObj [(''error'', JStr ''Invalid credentials'')])]"
  show ?thesis
    using login_register_storage [of example_env ?wa "Some (JStr ''u@x.y'')" "Some (JStr ''secret'')" JNull]
          login_register_storage [of example_env ?wb "Some (JStr ''u@x.y'')" "Some (JStr ''wrong'')" JNull]
    by (simp add: session_written_def eval_defs stringify_val_def)
qed

section \<open>Properties of the receipt form\<close>

subsection \<open>The arithmetic of the examples\<close>

lemmas dbl = round_dyadic_def Let_def is_inf_def is_zero_def negative_def signed_zero_def
  signed_inf_def mant_def expo_def

text \<open>
  The operations at some well-known places: a tie goes to the even mantissa
  (\<open>2^53 + 1\<close> is \<open>2^53\<close>, \<open>2^53 + 3\<close> is \<open>2^53 + 4\<close>), a third, the
  smallest positive double halved, the largest double doubled, and the largest double
  plus half a unit of its last place.
\<close>

lemma rounding_to_nearest_even:
  "fadd (Finite 1 53) (Finite 1 0) = Finite 1 53"
  "fadd (Finite 1 53) (Finite 3 0) = Finite 2251799813685249 2"
  "fadd (Finite 9007199254740991 971) (Finite 9007199254740991 971) = PosInf"
  "fadd (Finite 9007199254740991 971) (Finite 1 969) = Finite 9007199254740991 971"
  "fadd (Finite 9007199254740991 971) (Finite 1 970) = PosInf"
  "fadd (Finite 1 0) (Finite (- 1) 0) = Finite 0 0"
  unfolding fadd_def Let_def by (simp_all add: dbl)

lemma rounding_of_quotients:
  "fdiv (Finite 1 0) (Finite 3 0) = Finite 6004799503160661 (- 54)"
  "fdiv (Finite 1 0) (Finite 0 0) = PosInf"
  "fdiv (Finite 0 0) (Finite 0 0) = NaN"
  unfolding fdiv_def Let_def by (simp_all add: dbl)

lemma rounding_of_subnormals:
  "fmul (Finite 1 (- 1074)) (Finite 1 (- 1)) = Finite 0 0"
  "fmul (Finite 3 (- 1074)) (Finite 1 (- 1)) = Finite 1 (- 1073)"
  "fmul (Finite (- 1) (- 1074)) (Finite 1 (- 1)) = NegZero"
  unfolding fmul_def Let_def by (simp_all add: dbl)

lemma example_products:
  "fmul (Finite 1 1) (Finite 5 (- 1)) = Finite 5 0"
  "fmul (Finite 1 0) (Finite 1 2) = Finite 1 2"
  "fmul (Finite 5 0) (Finite 5 1) = Finite 25 1"
  "fmul (Finite 9 0) (Finite 5 1) = Finite 45 1"
  unfolding fmul_def Let_def by (simp_all add: dbl)

lemma example_sums:
  "fadd (Finite 0 0) (Finite 5 0) = Finite 5 0"
  "fadd (Finite 5 0) (Finite 1 2) = Finite 9 0"
  "fadd (Finite 5 0) (Finite 1 (- 1)) = Finite 11 (- 1)"
  "fadd (Finite 9 0) (Finite 8106479329266893 (- 53)) = Finite 5573204538870989 (- 49)"
  unfolding fadd_def Let_def by (simp_all add: dbl)

lemma example_quotients:
  "fdiv (Finite 25 1) (Finite 25 2) = Finite 1 (- 1)"
  "fdiv (Finite 45 1) (Finite 25 2) = Finite 8106479329266893 (- 53)"
  unfolding fdiv_def Let_def by (simp_all add: dbl)

lemma rounding_products:
  "fmul (Finite 1 0) tenth = tenth"
  "fmul (Finite 1 0) fifth = fifth"
  "fmul (Finite 1 0) three_tenths = three_tenths"
  "fmul (Finite 1351079888211149 (- 51)) (Finite 5 1) = Finite 6755399441055745 (- 50)"
  unfolding fmul_def Let_def tenth_def fifth_def three_tenths_def by (simp_all add: dbl)

lemma rounding_sums:
  "fadd (Finite 0 0) tenth = tenth"
  "fadd tenth fifth = Finite 1351079888211149 (- 52)"
  "fadd (Finite 1351079888211149 (- 52)) three_tenths = Finite 1351079888211149 (- 51)"
  "fadd (Finite 1351079888211149 (- 51)) (Finite 4323455642275677 (- 56))
     = Finite 185773484629033 (- 48)"
  "fadd three_tenths (Finite 0 0) = three_tenths"
  "fadd fifth three_tenths = Finite 1 (- 1)"
  "fadd tenth (Finite 1 (- 1)) = Finite 5404319552844595 (- 53)"
  unfolding fadd_def Let_def tenth_def fifth_def three_tenths_def by (simp_all add: dbl)

lemma rounding_quotients:
  "fdiv (Finite 6755399441055745 (- 50)) (Finite 25 2) = Finite 4323455642275677 (- 56)"
  unfolding fdiv_def Let_def by (simp_all add: dbl)

lemma overflow_products:
  "fmul (Finite 5 1) (Finite 156575653125701 976) = PosInf"
  "fmul PosInf (Finite 0 0) = NaN"
  unfolding fmul_def Let_def by (simp_all add: dbl)

lemma overflow_sums:
  "fadd (Finite 0 0) PosInf = PosInf"
  "fadd PosInf NaN = NaN"
  unfolding fadd_def Let_def by (simp_all add: dbl)

lemma overflow_quotients:
  "fdiv NaN (Finite 25 2) = NaN"
  unfolding fdiv_def Let_def by (simp_all add: dbl)

lemma pow2_pos: "0 < pow2 e"
  by (simp add: pow2_def)

lemma fle_positive: "0 < m \<Longrightarrow> \<not> fle (Finite m e) (Finite 0 0)"
  using pow2_pos [of e] by (simp add: fle_def val_def not_le)

subsection \<open>Sums that are not rounded\<close>

lemma unrounded_foldl:
  "unrounded acc xs \<Longrightarrow> is_finite acc \<Longrightarrow>
   is_finite (foldl (\<lambda>sum item. fadd sum (fmul (quantity item) (price item))) acc xs)
   \<and> val (foldl (\<lambda>sum item. fadd sum (fmul (quantity item) (price item))) acc xs)
       = val acc + (\<Sum>item\<leftarrow>xs. val (quantity item) * val (price item))"
proof (induction xs arbitrary: acc)
  case Nil
  then show ?case by simp
next
  case (Cons item xs)
  let ?s = "fadd acc (fmul (quantity item) (price item))"
  from Cons.prems(1) have u: "unrounded ?s xs" and f: "is_finite ?s"
    and v: "val ?s = val acc + val (quantity item) * val (price item)"
    by (simp_all add: Let_def)
  from Cons.IH [OF u f] v show ?case by simp
qed

lemma unrounded_sum_lines:
  "unrounded (Finite 0 0) xs \<Longrightarrow>
   is_finite (sum_lines xs)
   \<and> val (sum_lines xs) = (\<Sum>item\<leftarrow>xs. val (quantity item) * val (price item))"
  using unrounded_foldl [of "Finite 0 0" xs]
  by (simp add: sum_lines_def is_finite_def val_def)

lemma js_eq_self: "js_eq x x \<longleftrightarrow> x \<noteq> NaN"
  by (simp add: js_eq_def)

subsection \<open>What holds in every state of the form\<close>

lemma form_inv_initial: "form_inv initial_form"
  by (simp add: form_inv_def initial_form_def blank_item_def)

lemma form_inv_add: "form_inv f \<Longrightarrow> form_inv (handleAddItem f)"
  by (auto simp add: form_inv_def handleAddItem_def blank_item_def list_all_iff)

lemma filter_distinct_length:
  "distinct (map item_id xs) \<Longrightarrow> length xs \<le> Suc (length (filter (\<lambda>item. item_id item \<noteq> n) xs))"
proof (induction xs)
  case Nil
  then show ?case by simp
next
  case (Cons x xs)
  show ?case
  proof (cases "item_id x = n")
    case True
    with Cons.prems have "\<forall>y \<in> set xs. item_id y \<noteq> n" by (auto simp add: image_iff)
    then have "filter (\<lambda>item. item_id item \<noteq> n) xs = xs" by (simp add: filter_id_conv)
    with True show ?thesis by simp
  next
    case False
    with Cons show ?thesis by simp
  qed
qed

lemma form_inv_remove: "form_inv f \<Longrightarrow> form_inv (handleRemoveItem n f)"
proof -
  assume inv: "form_inv f"
  show ?thesis
  proof (cases "length (items f) > 1")
    case False
    with inv show ?thesis by (simp add: handleRemoveItem_def)
  next
    case True
    from inv have d: "distinct (map item_id (items f))" by (simp add: form_inv_def)
    from filter_distinct_length [OF d, of n] True
    have "filter (\<lambda>item. item_id item \<noteq> n) (items f) \<noteq> []" by auto
    with inv True show ?thesis
      by (auto simp add: form_inv_def handleRemoveItem_def distinct_map_filter list_all_iff)
  qed
qed

lemma item_id_set_field: "item_id (set_field v item) = item_id item"
  by (cases v) simp_all

lemma form_inv_update: "form_inv f \<Longrightarrow> form_inv (handleUpdateItem n v f)"
proof -
  assume inv: "form_inv f"
  let ?g = "\<lambda>item. if item_id item = n then set_field v item else item"
  have id_g: "\<And>item. item_id (?g item) = item_id item"
    by (simp add: item_id_set_field)
  have ids: "map item_id (map ?g (items f)) = map item_id (items f)"
    unfolding map_map comp_def id_g ..
  have a: "map ?g (items f) \<noteq> []" using inv by (simp add: form_inv_def)
  have b: "distinct (map item_id (map ?g (items f)))"
    unfolding ids using inv by (simp add: form_inv_def)
  have c: "list_all (\<lambda>item. item_id item < nextId f) (map ?g (items f))"
    using inv unfolding form_inv_def list_all_iff by (auto simp add: item_id_set_field)
  show ?thesis
    unfolding form_inv_def handleUpdateItem_def using a b c by simp
qed


lemma form_inv_fields:
  "form_inv f \<Longrightarrow> form_inv (f\<lparr>customerName := a\<rparr>)"
  "form_inv f \<Longrightarrow> form_inv (f\<lparr>customerEmail := a\<rparr>)"
  "form_inv f \<Longrightarrow> form_inv (f\<lparr>transactionDate := a\<rparr>)"
  "form_inv f \<Longrightarrow> form_inv (f\<lparr>taxRate := r\<rparr>)"
  by (simp_all add: form_inv_def)

lemma form_inv_reset:
  "form_inv (f\<lparr>customerName := [], customerEmail := [], transactionDate := [],
              items := [blank_item 1], nextId := 2\<rparr>)"
  by (simp add: form_inv_def blank_item_def)

lemma submit_inv:
  assumes "run_inv (f, out)"
  shows "run_inv (snd (handleSubmit (\<lambda>d out. out @ [d]) f out))"
proof -
  from assms have f: "form_inv f"
    and out: "list_all (\<lambda>d. d_items d \<noteq> [] \<and> totals_consistent d) out"
    by (simp_all add: run_inv_def)
  from f have ne: "items f \<noteq> []" by (simp add: form_inv_def)
  have tc: "totals_consistent
       \<lparr>d_customerName = customerName f, d_customerEmail = customerEmail f,
        d_transactionDate = transactionDate f, d_items = items f,
        d_subtotal = subtotal f, d_tax = tax f, d_total = total f,
        d_taxRate = taxRate f\<rparr>"
    by (simp add: totals_consistent_def subtotal_def tax_def total_def)
  show ?thesis
    using f out ne tc form_inv_reset [of f]
    by (simp add: handleSubmit_def run_inv_def)
qed

lemma form_step_inv: "run_inv p \<Longrightarrow> run_inv (form_step p ev)"
proof -
  assume inv: "run_inv p"
  obtain f out where p: "p = (f, out)" by (cases p)
  show ?thesis
  proof (cases ev)
    case Submit
    with inv p submit_inv [of f out] show ?thesis by simp
  qed (use inv p in \<open>simp_all add: run_inv_def form_inv_fields form_inv_add form_inv_remove
         form_inv_update\<close>)
qed

lemma foldl_inv: "run_inv p \<Longrightarrow> run_inv (foldl form_step p evs)"
  by (induction evs arbitrary: p) (simp_all add: form_step_inv)

lemma run_form_inv: "run_inv (run_form evs)"
  unfolding run_form_def
  by (rule foldl_inv) (simp add: run_inv_def form_inv_initial)

lemmas form_eval = run_form_def example_events_def initial_form_def blank_item_def
  handleAddItem_def handleRemoveItem_def handleUpdateItem_def handleSubmit_def
  subtotal_def tax_def total_def sum_lines_def example_form_def example_submission_def
  fle_positive example_products example_sums example_quotients

lemma run_example_events:
  "run_form example_events = (initial_form, [example_submission])"
  by (simp add: form_eval)

lemma run_rounding_events:
  "snd (run_form rounding_events)
     = [\<lparr>d_customerName = ''Ann'', d_customerEmail = ''ann@example.com'',
         d_transactionDate = ''2025-12-03'',
         d_items = [\<lparr>item_id = 1, item_name = ''Pen'', quantity = Finite 1 0, price = tenth\<rparr>,
                    \<lparr>item_id = 2, item_name = ''Ink'', quantity = Finite 1 0, price = fifth\<rparr>,
                    \<lparr>item_id = 3, item_name = ''Pad'', quantity = Finite 1 0,
                     price = three_tenths\<rparr>],
         d_subtotal = Finite 1351079888211149 (- 51),
         d_tax = Finite 4323455642275677 (- 56),
         d_total = Finite 185773484629033 (- 48), d_taxRate = Finite 5 1\<rparr>]"
proof -
  have p: "\<not> fle tenth (Finite 0 0)" "\<not> fle fifth (Finite 0 0)"
    "\<not> fle three_tenths (Finite 0 0)"
    by (simp_all add: tenth_def fifth_def three_tenths_def fle_positive)
  show ?thesis
    by (simp add: run_form_def rounding_events_def initial_form_def blank_item_def
          handleAddItem_def handleUpdateItem_def handleSubmit_def
          subtotal_def tax_def total_def sum_lines_def p
          rounding_products rounding_sums rounding_quotients)
qed

lemma run_overflow_events:
  "snd (run_form overflow_events)
     = [\<lparr>d_customerName = ''Ann'', d_customerEmail = ''ann@example.com'',
         d_transactionDate = ''2025-12-03'',
         d_items = [\<lparr>item_id = 1, item_name = ''Ore'', quantity = Finite 5 1,
                     price = Finite 156575653125701 976\<rparr>],
         d_subtotal = PosInf, d_tax = NaN, d_total = NaN, d_taxRate = Finite 0 0\<rparr>]"
  by (simp add: run_form_def overflow_events_def initial_form_def blank_item_def
        handleUpdateItem_def handleSubmit_def subtotal_def tax_def total_def sum_lines_def
        fle_positive overflow_products overflow_sums overflow_quotients)

text \<open>
  Claim C2 (as stated: the subtotal equals the sum over the items of quantity times
  price, and every submitted object satisfies \<open>total = subtotal + tax\<close>). The numbers
  of the form are doubles. With the prices 0.1, 0.2 and 0.3 at quantity 1, the subtotal
  submitted is \<open>0.6000000000000001\<close>: it is not the sum of the three products, and not
  \<open>0.6\<close>, the double nearest to that sum, which is also what adding the same products
  from the right gives. With the quantity 10, the price \<open>1e308\<close> and the tax rate 0,
  the subtotal submitted is \<open>Infinity\<close> and the tax and the total are \<open>NaN\<close>, so
  that \<open>total === subtotal + tax\<close> is false of the object.
\<close>

theorem receipt_totals_counterexample:
  "(let d = last (snd (run_form rounding_events))
    in map price (d_items d) = [tenth, fifth, three_tenths]
       \<and> map quantity (d_items d) = [Finite 1 0, Finite 1 0, Finite 1 0]
       \<and> d_subtotal d = Finite 1351079888211149 (- 51)
       \<and> val (d_subtotal d) \<noteq> (\<Sum>item\<leftarrow>d_items d. val (quantity item) * val (price item))
       \<and> d_subtotal d \<noteq> Finite 5404319552844595 (- 53)
       \<and> foldr (\<lambda>item sum. fadd (fmul (quantity item) (price item)) sum) (d_items d) (Finite 0 0)
           = Finite 5404319552844595 (- 53))
   \<and> (let d = last (snd (run_form overflow_events))
      in d_subtotal d = PosInf \<and> d_tax d = NaN \<and> d_total d = NaN
         \<and> \<not> js_eq (d_total d) (fadd (d_subtotal d) (d_tax d)))"
  by (simp add: run_rounding_events run_overflow_events rounding_products rounding_sums
        overflow_sums js_eq_def)
     (simp add: val_def pow2_def tenth_def fifth_def three_tenths_def)

text \<open>
  Claim C2 (amended). For every list of line items and every tax rate in the state of
  the form, the subtotal is the sum of the products quantity times price taken from the
  left, starting at 0, the tax is the subtotal times the tax rate divided by 100, and
  the total is the subtotal plus the tax, every operation being that of the doubles,
  rounded to the nearest double. When no product and no partial sum is rounded, the
  subtotal is the exact sum of the products. \<open>total === subtotal + tax\<close> holds
  unless the total is \<open>NaN\<close>. Every object the form submits, in any session, carries
  the subtotal, the tax and the total so computed from its own lines and tax rate.
\<close>

theorem receipt_totals:
  "subtotal f
     = foldl (\<lambda>sum item. fadd sum (fmul (quantity item) (price item))) (Finite 0 0) (items f)
   \<and> tax f = fdiv (fmul (subtotal f) (taxRate f)) (Finite 25 2)
   \<and> total f = fadd (subtotal f) (tax f)
   \<and> (unrounded (Finite 0 0) (items f) \<longrightarrow>
        is_finite (subtotal f)
        \<and> val (subtotal f) = (\<Sum>item\<leftarrow>items f. val (quantity item) * val (price item)))
   \<and> (js_eq (total f) (fadd (subtotal f) (tax f)) \<longleftrightarrow> total f \<noteq> NaN)
   \<and> (\<forall>d \<in> set (snd (run_form evs)).
         d_subtotal d
           = foldl (\<lambda>sum item. fadd sum (fmul (quantity item) (price item))) (Finite 0 0)
               (d_items d)
         \<and> d_tax d = fdiv (fmul (d_subtotal d) (d_taxRate d)) (Finite 25 2)
         \<and> d_total d = fadd (d_subtotal d) (d_tax d)
         \<and> (unrounded (Finite 0 0) (d_items d) \<longrightarrow>
              is_finite (d_subtotal d)
              \<and> val (d_subtotal d)
                  = (\<Sum>item\<leftarrow>d_items d. val (quantity item) * val (price item)))
         \<and> (js_eq (d_total d) (fadd (d_subtotal d) (d_tax d)) \<longleftrightarrow> d_total d \<noteq> NaN))"
proof -
  have a: "subtotal f
     = foldl (\<lambda>sum item. fadd sum (fmul (quantity item) (price item))) (Finite 0 0) (items f)"
    by (simp add: subtotal_def sum_lines_def)
  have b: "tax f = fdiv (fmul (subtotal f) (taxRate f)) (Finite 25 2)"
    by (simp add: tax_def)
  have c: "total f = fadd (subtotal f) (tax f)"
    by (simp add: total_def)
  have d: "unrounded (Finite 0 0) (items f) \<longrightarrow>
        is_finite (subtotal f)
        \<and> val (subtotal f) = (\<Sum>item\<leftarrow>items f. val (quantity item) * val (price item))"
    using unrounded_sum_lines [of "items f"] by (simp add: subtotal_def)
  have e: "js_eq (total f) (fadd (subtotal f) (tax f)) \<longleftrightarrow> total f \<noteq> NaN"
    by (simp add: total_def js_eq_self)
  have g: "\<forall>d \<in> set (snd (run_form evs)).
         d_subtotal d
           = foldl (\<lambda>sum item. fadd sum (fmul (quantity item) (price item))) (Finite 0 0)
               (d_items d)
         \<and> d_tax d = fdiv (fmul (d_subtotal d) (d_taxRate d)) (Finite 25 2)
         \<and> d_total d = fadd (d_subtotal d) (d_tax d)
         \<and> (unrounded (Finite 0 0) (d_items d) \<longrightarrow>
              is_finite (d_subtotal d)
              \<and> val (d_subtotal d)
                  = (\<Sum>item\<leftarrow>d_items d. val (quantity item) * val (price item)))
         \<and> (js_eq (d_total d) (fadd (d_subtotal d) (d_tax d)) \<longleftrightarrow> d_total d \<noteq> NaN)"
  proof
    fix d
    assume "d \<in> set (snd (run_form evs))"
    with run_form_inv [of evs] have tc: "totals_consistent d"
      by (simp add: run_inv_def list_all_iff)
    then have s: "d_subtotal d = sum_lines (d_items d)"
      and t: "d_tax d = fdiv (fmul (d_subtotal d) (d_taxRate d)) (Finite 25 2)"
      and u: "d_total d = fadd (d_subtotal d) (d_tax d)"
      by (simp_all add: totals_consistent_def)
    from s have s': "d_subtotal d
           = foldl (\<lambda>sum item. fadd sum (fmul (quantity item) (price item))) (Finite 0 0)
               (d_items d)"
      by (simp add: sum_lines_def)
    have x: "unrounded (Finite 0 0) (d_items d) \<longrightarrow>
              is_finite (d_subtotal d)
              \<and> val (d_subtotal d)
                  = (\<Sum>item\<leftarrow>d_items d. val (quantity item) * val (price item))"
      using unrounded_sum_lines [of "d_items d"] s by simp
    have y: "js_eq (d_total d) (fadd (d_subtotal d) (d_tax d)) \<longleftrightarrow> d_total d \<noteq> NaN"
      using u js_eq_self [of "d_total d"] by simp
    from s' t u x y
    show "d_subtotal d
           = foldl (\<lambda>sum item. fadd sum (fmul (quantity item) (price item))) (Finite 0 0)
               (d_items d)
         \<and> d_tax d = fdiv (fmul (d_subtotal d) (d_taxRate d)) (Finite 25 2)
         \<and> d_total d = fadd (d_subtotal d) (d_tax d)
         \<and> (unrounded (Finite 0 0) (d_items d) \<longrightarrow>
              is_finite (d_subtotal d)
              \<and> val (d_subtotal d)
                  = (\<Sum>item\<leftarrow>d_items d. val (quantity item) * val (price item)))
         \<and> (js_eq (d_total d) (fadd (d_subtotal d) (d_tax d)) \<longleftrightarrow> d_total d \<noteq> NaN)"
      by blast
  qed
  from a b c d e g show ?thesis by blast
qed

text \<open>
  Tea at 2 times 2.5 and cake at 1 times 4: nothing is rounded in the subtotal 9; the
  tax is the double 0.9 and the total the double 9.9.
\<close>

theorem receipt_totals_witness:
  "snd (run_form example_events) = [example_submission]
   \<and> subtotal example_form = Finite 5 0 \<and> tax example_form = Finite 1 (- 1)
   \<and> total example_form = Finite 11 (- 1)
   \<and> unrounded (Finite 0 0) (d_items example_submission)
   \<and> d_subtotal example_submission = Finite 9 0
   \<and> val (d_subtotal example_submission) = 2 * (5 / 2) + 1 * 4
   \<and> d_tax example_submission = fdiv (Finite 45 1) (Finite 25 2)
   \<and> d_total example_submission = fadd (Finite 9 0) (Finite 8106479329266893 (- 53))
   \<and> js_eq (d_total example_submission)
        (fadd (d_subtotal example_submission) (d_tax example_submission))"
proof -
  have items: "items example_form
      = [\<lparr>item_id = 1, item_name = ''Tea'', quantity = Finite 1 1, price = Finite 5 (- 1)\<rparr>]"
    "taxRate example_form = Finite 5 1"
    by (simp_all add: example_form_def)
  have d_items: "d_items example_submission
      = [\<lparr>item_id = 1, item_name = ''Tea'', quantity = Finite 1 1, price = Finite 5 (- 1)\<rparr>,
         \<lparr>item_id = 2, item_name = ''Cake'', quantity = Finite 1 0, price = Finite 1 2\<rparr>]"
    "d_subtotal example_submission = Finite 9 0"
    "d_tax example_submission = Finite 8106479329266893 (- 53)"
    "d_total example_submission = Finite 5573204538870989 (- 49)"
    "d_taxRate example_submission = Finite 5 1"
    by (simp_all add: example_submission_def)
  have u: "unrounded (Finite 0 0) (d_items example_submission)"
    by (simp add: d_items example_products example_sums is_finite_def val_def pow2_def)
  from receipt_totals [of example_form example_events] u
  show ?thesis
    by (simp add: run_example_events items d_items example_products example_sums
          example_quotients val_def pow2_def)
qed

text \<open>
  Claim C9. The form starts with one line; \<open>handleAddItem\<close> appends a line;
  \<open>handleRemoveItem\<close> changes nothing unless there is more than one line; a
  successful submit leaves a single blank line. So the list of lines is never empty, in
  any state the form reaches, and every object the form submits has a line.
\<close>

theorem items_never_empty:
  "length (items initial_form) = 1
   \<and> items (handleAddItem f) = items f @ [blank_item (nextId f)]
   \<and> (length (items f) \<le> 1 \<longrightarrow> handleRemoveItem n f = f)
   \<and> (\<forall>f' s'. handleSubmit onSubmit f s = (None, f', s') \<longrightarrow> items f' = [blank_item 1])
   \<and> items (fst (run_form evs)) \<noteq> []
   \<and> (\<forall>d \<in> set (snd (run_form evs)). d_items d \<noteq> [])"
proof -
  have a: "length (items initial_form) = 1" by (simp add: initial_form_def)
  have b: "items (handleAddItem f) = items f @ [blank_item (nextId f)]"
    by (simp add: handleAddItem_def)
  have c: "length (items f) \<le> 1 \<longrightarrow> handleRemoveItem n f = f"
    by (simp add: handleRemoveItem_def)
  have d: "\<forall>f' s'. handleSubmit onSubmit f s = (None, f', s') \<longrightarrow> items f' = [blank_item 1]"
    by (auto simp add: handleSubmit_def split: if_splits)
  from run_form_inv [of evs]
  have e: "items (fst (run_form evs)) \<noteq> []"
    and g: "\<forall>d \<in> set (snd (run_form evs)). d_items d \<noteq> []"
    by (simp_all add: run_inv_def form_inv_def list_all_iff)
  from a b c d e g show ?thesis by blast
qed


theorem items_never_empty_witness:
  "length (items example_form) \<le> 1
   \<and> handleRemoveItem 1 example_form = example_form
   \<and> fst (handleSubmit (\<lambda>d out. out @ [d]) example_form []) = None
   \<and> items (fst (snd (handleSubmit (\<lambda>d out. out @ [d]) example_form []))) = [blank_item 1]
   \<and> snd (run_form example_events) = [example_submission]
   \<and> d_items example_submission \<noteq> []
   \<and> items (fst (run_form example_events)) \<noteq> []"
proof -
  have l: "length (items example_form) \<le> 1" by (simp add: example_form_def)
  obtain f' s' where h: "handleSubmit (\<lambda>d out. out @ [d]) example_form [] = (None, f', s')"
    by (simp add: handleSubmit_def example_form_def fle_positive)
  from items_never_empty [of example_form 1 "\<lambda>d out. out @ [d]" "[]" example_events] l h
  show ?thesis
    by (simp add: run_example_events)
qed

section \<open>Properties of the dashboard\<close>

text \<open>
  Claim C5. For every receipt composed through the dashboard, \<open>handleCreateReceipt\<close>
  gives it the receipt number \<open>REC-\<close> followed by the value of \<open>Date.now()\<close>; the
  number is in \<open>formData\<close> before \<open>showPreview\<close> is set, and after a successful
  submit of the form the preview is shown with that number.
\<close>

theorem receipt_number_generated:
  "(let fd = with_receipt_number E now date d;
        dash1 = setFormData (Some (Composed fd)) dash;
        dash2 = handleCreateReceipt E now date d dash
    in receiptNumber fd = ''REC-'' @ num_str E (of_nat now)
       \<and> dash2 = setShowPreview True dash1
       \<and> formData dash1 = Some (Composed fd) \<and> showPreview dash1 = showPreview dash
       \<and> formData dash2 = Some (Composed fd) \<and> showPreview dash2)
   \<and> (\<forall>p'. submit_form E now date p = (None, p') \<longrightarrow>
         (\<exists>fd. formData (page_dashboard p') = Some (Composed fd)
               \<and> receiptNumber fd = ''REC-'' @ num_str E (of_nat now)
               \<and> showPreview (page_dashboard p')))"
proof -
  have n: "receiptNumber (with_receipt_number E now date d) = ''REC-'' @ num_str E (of_nat now)" for d
    by (simp add: with_receipt_number_def submission.defs form_data.defs)
  have a: "(let fd = with_receipt_number E now date d;
        dash1 = setFormData (Some (Composed fd)) dash;
        dash2 = handleCreateReceipt E now date d dash
    in receiptNumber fd = ''REC-'' @ num_str E (of_nat now)
       \<and> dash2 = setShowPreview True dash1
       \<and> formData dash1 = Some (Composed fd) \<and> showPreview dash1 = showPreview dash
       \<and> formData dash2 = Some (Composed fd) \<and> showPreview dash2)"
    by (simp add: Let_def n handleCreateReceipt_def setFormData_def setShowPreview_def)
  have b: "\<forall>p'. submit_form E now date p = (None, p') \<longrightarrow>
         (\<exists>fd. formData (page_dashboard p') = Some (Composed fd)
               \<and> receiptNumber fd = ''REC-'' @ num_str E (of_nat now)
               \<and> showPreview (page_dashboard p'))"
    by (auto simp add: submit_form_def handleSubmit_def handleCreateReceipt_def setFormData_def
          setShowPreview_def n split: if_splits)
  from a b show ?thesis by blast
qed

text \<open>A submit at 1764720000000 milliseconds.\<close>

theorem receipt_number_generated_witness:
  "(let (alert, p') = submit_form example_env 1764720000000 1764720000123 example_page
    in alert = None \<and> showPreview (page_dashboard p')
       \<and> (\<exists>fd. formData (page_dashboard p') = Some (Composed fd)
                \<and> receiptNumber fd = ''REC-1764720000000''))"
proof -
  obtain p' where s: "submit_form example_env 1764720000000 1764720000123 example_page = (None, p')"
    by (simp add: submit_form_def handleSubmit_def example_page_def example_form_def fle_positive)
  have n: "num_str example_env (of_nat 1764720000000) = ''1764720000000''"
    by (simp add: example_env_def example_num_str_def)
  from receipt_number_generated [of example_env 1764720000000 1764720000123 example_submission initial_dashboard example_page] s n
  show ?thesis by auto
qed


subsection \<open>The requests of the send flow\<close>

text \<open>The first request of a call, and where the others go.\<close>

lemma apiRequest_issued:
  "\<exists>rest. issued w (snd (apiRequest E ep opts w)) = first_request E ep opts w # rest
      \<and> sent (snd (apiRequest E ep opts w)) = sent w @ first_request E ep opts w # rest
      \<and> (\<forall>r \<in> set rest. url r = API_BASE_URL E @ ep \<or> url r = API_BASE_URL E @ ''/auth/refresh'')"
proof -
  from apiRequest_sent [of E ep opts w] obtain xs where
    s: "sent (snd (apiRequest E ep opts w)) = sent w @ first_request E ep opts w # xs"
    and x: "xs = [] \<or> (\<exists>rt. xs = [refresh_request E rt])
            \<or> (\<exists>rt hs. xs = [refresh_request E rt, build_request E ep opts hs])" by blast
  have "\<forall>r \<in> set xs. url r = API_BASE_URL E @ ep \<or> url r = API_BASE_URL E @ ''/auth/refresh''"
    using x by (auto simp add: refresh_request_def)
  with s show ?thesis by (simp add: issued_def)
qed

lemma call_issued:
  "\<exists>rest. issued w (snd (call E c w)) = first_request E (endpoint_of E c) (options_of E c) w # rest
      \<and> sent (snd (call E c w)) = sent w @ first_request E (endpoint_of E c) (options_of E c) w # rest
      \<and> (\<forall>r \<in> set rest. url r = API_BASE_URL E @ endpoint_of E c
                         \<or> url r = API_BASE_URL E @ ''/auth/refresh'')"
  using apiRequest_issued [of w E "endpoint_of E c" "options_of E c"]
  by (simp add: call_ok_data ok_data_world)

lemma call_extends: "\<exists>xs. sent (snd (call E c w)) = sent w @ xs"
  using call_issued [of w E c] by blast

lemma issued_trans:
  "prefix (sent w) (sent w1) \<Longrightarrow> prefix (sent w1) (sent w2) \<Longrightarrow>
   issued w w2 = issued w w1 @ issued w1 w2"
  by (auto simp add: prefix_def issued_def)

lemma issued_self [simp]: "issued w w = []"
  by (simp add: issued_def)

lemma call_prefix: "prefix (sent w) (sent (snd (call E c w)))"
  using call_extends [of E c w] by (auto simp add: prefix_def)

lemma email_only_world:
  "snd (email_only E receiptId email fallback w) = snd (call E (SendEmail receiptId email) w)"
  by (simp add: email_only_def split: prod.splits sum.splits)


lemma email_only_prefix: "prefix (sent w) (sent (snd (email_only E receiptId email fallback w)))"
  using call_prefix [of w E "SendEmail receiptId email"] by (simp add: email_only_world)


lemma send_both_prefix:
  "prefix (sent w) (sent (snd (notificationsAPI_sendBoth E receiptId email phone w)))"
  using call_prefix [of w E "SendBoth receiptId email phone"] by simp

text \<open>The world after the send step, by the outcome of the combined call.\<close>

lemma send_notifications_fallback:
  "truthy phone \<Longrightarrow> notificationsAPI_sendBoth E receiptId email phone w = (Inr res, w1) \<Longrightarrow>
   \<not> ok res \<Longrightarrow>
   send_notifications E receiptId email phone w
     = email_only E receiptId email ''Failed to send receipt'' w1"
  by (simp add: send_notifications_def)

lemma send_notifications_no_fallback:
  "truthy phone \<Longrightarrow> notificationsAPI_sendBoth E receiptId email phone w = (rb, w1) \<Longrightarrow>
   \<not> (\<exists>res. rb = Inr res \<and> \<not> ok res) \<Longrightarrow>
   snd (send_notifications E receiptId email phone w) = w1"
  by (auto simp add: send_notifications_def Let_def split: sum.splits)

lemma send_notifications_no_phone:
  "\<not> truthy phone \<Longrightarrow>
   send_notifications E receiptId email phone w
     = email_only E receiptId email ''Failed to send email'' w"
  by (simp add: send_notifications_def)













text \<open>\<open>handleSendReceipt\<close> from the outcome of its \<open>try\<close> block.\<close>

lemma send_receipt_unfold:
  assumes "checkNotificationConfig E w = (cc, w1)" "\<forall>msg. cc \<noteq> ConfigError msg"
    "receiptData pv = Inr rd" "create_receipt E rd w1 = (Inr receiptId, w2)"
  shows "send_receipt E pv w
           = (case send_notifications E receiptId (customer_email rd) (customer_phone rd) w2 of
                (Inl e, w3) \<Rightarrow> (Inl e, w3)
              | (Inr (emailSent, smsSent, sendMessage), w3) \<Rightarrow> (Inr sendMessage, w3))"
  using assms by (cases cc) (simp_all add: send_receipt_def split: prod.splits sum.splits)


lemmas send_eval = send_notifications_def email_only_def notificationsAPI_sendBoth_def
  notificationsAPI_sendEmail_def notificationsAPI_getConfig_def receiptsAPI_create_def
  receiptsAPI_getAll_def getAll_params_def query_string_def
  ok_data_def apiRequest_def post_def js_object_def js_or_def error_or_def quoted_def
  example_num_str_def

lemmas dashboard_eval = handleSendReceipt_def send_receipt_def checkNotificationConfig_def
  create_receipt_def loadReceipts_def composed_data_def listed_data_def listed_item_def
  receipt_json_def item_json_def number_json_def is_finite_def
  example_receipt_def with_receipt_number_def example_submission_def
  submission.defs form_data.defs initial_dashboard_def setFormData_def setShowPreview_def
  handleViewReceipt_def handleCreateReceipt_def
  example_send_world_def send_script_def example_listed_def example_with_phone_def
  error_message_def js_string_def





subsection \<open>When a receipt is created\<close>

lemma issued_mono:
  assumes "prefix (sent w) (sent w1)" "prefix (sent w1) (sent w2)" "prefix (sent w2) (sent w3)"
  shows "set (issued w1 w2) \<subseteq> set (issued w w3)"
proof -
  have p13: "prefix (sent w1) (sent w3)" using assms(2,3) by (rule prefix_order.trans)
  have "issued w w3 = issued w w1 @ issued w1 w3" using issued_trans [OF assms(1) p13] .
  moreover have "issued w1 w3 = issued w1 w2 @ issued w2 w3" using issued_trans [OF assms(2,3)] .
  ultimately show ?thesis by auto
qed

lemma checkNotificationConfig_world:
  "snd (checkNotificationConfig E w) = snd (call E GetConfig w)"
  by (simp add: checkNotificationConfig_def split: prod.splits sum.splits)

lemma create_receipt_world:
  "snd (create_receipt E rd w) = snd (call E (Create (receipt_json rd)) w)"
  by (simp add: create_receipt_def Let_def split: prod.splits sum.splits)

lemma loadReceipts_world:
  "snd (loadReceipts E dash w) = snd (call E (GetAll (Some 1) (Some 20) None None) w)"
  by (simp add: loadReceipts_def split: prod.splits sum.splits)

lemma send_notifications_prefix:
  "prefix (sent w) (sent (snd (send_notifications E receiptId email phone w)))"
proof (cases "truthy phone")
  case False
  then show ?thesis
    using email_only_prefix [of w E receiptId email "''Failed to send email''"]
    by (simp add: send_notifications_no_phone)
next
  case True
  obtain rb w1 where sb: "notificationsAPI_sendBoth E receiptId email phone w = (rb, w1)"
    by (cases "notificationsAPI_sendBoth E receiptId email phone w")
  have p1: "prefix (sent w) (sent w1)"
    using send_both_prefix [of w E receiptId email phone] sb by simp
  show ?thesis
  proof (cases "\<exists>res. rb = Inr res \<and> \<not> ok res")
    case True
    then obtain res where "rb = Inr res" "\<not> ok res" by blast
    with sb \<open>truthy phone\<close>
    have "send_notifications E receiptId email phone w
            = email_only E receiptId email ''Failed to send receipt'' w1"
      by (simp add: send_notifications_fallback)
    with p1 email_only_prefix [of w1 E receiptId email "''Failed to send receipt''"]
    show ?thesis by (simp add: prefix_order.trans)
  next
    case False
    from send_notifications_no_fallback [OF \<open>truthy phone\<close> sb False] p1
    show ?thesis by simp
  qed
qed

lemma send_receipt_prefix:
  assumes "\<forall>msg. fst (checkNotificationConfig E w) \<noteq> ConfigError msg" "receiptData pv = Inr rd"
  shows "prefix (sent (snd (create_receipt E rd (snd (checkNotificationConfig E w)))))
           (sent (snd (send_receipt E pv w)))"
proof -
  obtain cc w1 where c: "checkNotificationConfig E w = (cc, w1)"
    by (cases "checkNotificationConfig E w")
  obtain x w2 where cr: "create_receipt E rd w1 = (x, w2)" by (cases "create_receipt E rd w1")
  from assms c have ne: "\<forall>msg. cc \<noteq> ConfigError msg" by simp
  show ?thesis
  proof (cases x)
    case (Inl e)
    with c cr ne assms(2) show ?thesis by (cases cc) (simp_all add: send_receipt_def)
  next
    case (Inr receiptId)
    let ?sn = "send_notifications E receiptId (customer_email rd) (customer_phone rd) w2"
    from cr Inr have cr': "create_receipt E rd w1 = (Inr receiptId, w2)" by simp
    have "snd (send_receipt E pv w) = snd ?sn"
      unfolding send_receipt_unfold [OF c ne assms(2) cr']
      by (simp split: prod.splits sum.splits)
    with c cr send_notifications_prefix [of w2 E receiptId "customer_email rd" "customer_phone rd"]
    show ?thesis by simp
  qed
qed

lemma handleSendReceipt_prefix:
  assumes "formData dash = Some pv" "preview_truthy pv"
  shows "prefix (sent (snd (send_receipt E pv w))) (sent (snd (handleSendReceipt E dash w)))"
proof -
  obtain x w1 where s: "send_receipt E pv w = (x, w1)" by (cases "send_receipt E pv w")
  show ?thesis
  proof (cases x)
    case (Inl e)
    with assms s show ?thesis by (simp add: handleSendReceipt_def Let_def)
  next
    case (Inr m)
    let ?d = "dash\<lparr>isSending := True, toastMessage := m\<rparr>"
    have "snd (handleSendReceipt E dash w) = snd (loadReceipts E ?d w1)"
      using assms s Inr by (simp add: handleSendReceipt_def Let_def split: prod.splits)
    with s call_prefix [of w1 E "GetAll (Some 1) (Some 20) None None"]
    show ?thesis by (simp add: loadReceipts_world)
  qed
qed

lemma handleSendReceipt_no_create:
  assumes "formData dash = Some pv"
    "(\<exists>msg. fst (checkNotificationConfig E w) = ConfigError msg) \<or> (\<exists>e. receiptData pv = Inl e)"
  shows "\<forall>r \<in> set (issued w (snd (handleSendReceipt E dash w))).
           url r \<noteq> API_BASE_URL E @ ''/receipts''"
proof (cases "preview_truthy pv")
  case False
  with assms(1) show ?thesis by (simp add: handleSendReceipt_def)
next
  case True
  obtain cc w1 where c: "checkNotificationConfig E w = (cc, w1)"
    by (cases "checkNotificationConfig E w")
  have "\<exists>e. send_receipt E pv w = (Inl e, w1)"
    using assms(2) c by (cases cc) (auto simp add: send_receipt_def)
  then obtain e where "send_receipt E pv w = (Inl e, w1)" by blast
  with assms(1) True c checkNotificationConfig_world [of E w]
  have w: "snd (handleSendReceipt E dash w) = snd (call E GetConfig w)"
    by (simp add: handleSendReceipt_def Let_def)
  from call_issued [of w E GetConfig] w
  have "\<forall>r \<in> set (issued w (snd (handleSendReceipt E dash w))).
          url r = API_BASE_URL E @ ''/notifications/config''
          \<or> url r = API_BASE_URL E @ ''/auth/refresh''"
    by auto
  then show ?thesis by auto
qed

lemma handleSendReceipt_creates:
  assumes "formData dash = Some pv" "preview_truthy pv" "receiptData pv = Inr rd"
    "\<forall>msg. fst (checkNotificationConfig E w) \<noteq> ConfigError msg"
  shows "\<exists>r \<in> set (issued w (snd (handleSendReceipt E dash w))).
           url r = API_BASE_URL E @ ''/receipts'' \<and> http_method r = Some ''POST''
           \<and> body r = Some (stringify E (receipt_json rd))"
proof -
  let ?w1 = "snd (checkNotificationConfig E w)"
  let ?w2 = "snd (create_receipt E rd ?w1)"
  let ?w3 = "snd (send_receipt E pv w)"
  let ?w4 = "snd (handleSendReceipt E dash w)"
  let ?c = "Create (receipt_json rd)"
  let ?rc = "first_request E (endpoint_of E ?c) (options_of E ?c) ?w1"
  have p01: "prefix (sent w) (sent ?w1)"
    using call_prefix [of w E GetConfig] by (simp add: checkNotificationConfig_world)
  have p12: "prefix (sent ?w1) (sent ?w2)"
    using call_prefix [of ?w1 E ?c] by (simp add: create_receipt_world)
  have p23: "prefix (sent ?w2) (sent ?w3)" using send_receipt_prefix [OF assms(4,3)] .
  have p34: "prefix (sent ?w3) (sent ?w4)" using handleSendReceipt_prefix [OF assms(1,2)] .
  have p24: "prefix (sent ?w2) (sent ?w4)" using p23 p34 by (rule prefix_order.trans)
  from call_issued [of ?w1 E ?c]
  have "?rc \<in> set (issued ?w1 ?w2)" by (auto simp add: create_receipt_world)
  with issued_mono [OF p01 p12 p24] have "?rc \<in> set (issued w ?w4)" by blast
  moreover have "url ?rc = API_BASE_URL E @ ''/receipts'' \<and> http_method ?rc = Some ''POST''
               \<and> body ?rc = Some (stringify E (receipt_json rd))"
    by (simp add: build_request_def post_def)
  ultimately show ?thesis by blast
qed

text \<open>
  The claim C4 as stated fails: submitting the form issues no request. The submitted
  object is kept in \<open>formData\<close> and the preview is opened; nothing reaches the backend.
\<close>

theorem receipt_created_on_send_counterexample:
  "(let (alert, p') = submit_form example_env 1764720000000 1764720000123 example_page
    in alert = None
       \<and> showPreview (page_dashboard p')
       \<and> (\<exists>fd. formData (page_dashboard p') = Some (Composed fd)
                \<and> receiptNumber fd = ''REC-1764720000000''
                \<and> d_total fd = Finite 11 (- 1))
       \<and> sent (page_browser p') = [])"
  by (simp add: submit_form_def handleSubmit_def example_page_def
      example_form_def example_world_def example_env_def example_num_str_def
      subtotal_def tax_def total_def sum_lines_def fle_positive example_products example_sums
      example_quotients dashboard_eval)

text \<open>
  Claim C4, amended. Submitting the receipt form leaves the browser untouched: no
  request is issued; the receipt is stored in \<open>formData\<close> and the preview is
  opened. The receipt is created when the previewed receipt is sent:
  \<open>handleSendReceipt\<close>, with a receipt in \<open>formData\<close>, posts the receipt data to
  \<open>/receipts\<close>, unless the configuration check reports that neither email nor SMS is
  configured, in which case no request goes to \<open>/receipts\<close>. Without a receipt in
  \<open>formData\<close> it does nothing. The receipt data of a receipt composed in the form
  is always there; for a receipt opened from the list it is there when the object has an
  array of items none of which is \<open>null\<close>, and otherwise no request goes to
  \<open>/receipts\<close> either.
\<close>

theorem receipt_created_on_send:
  "page_browser (snd (submit_form E now date p)) = page_browser p
   \<and> (\<forall>p'. submit_form E now date p = (None, p') \<longrightarrow>
         (\<exists>fd. formData (page_dashboard p') = Some (Composed fd)
               \<and> d_items fd = items (page_form p)
               \<and> showPreview (page_dashboard p')))
   \<and> (formData dash = None \<longrightarrow> handleSendReceipt E dash w = (dash, w))
   \<and> (\<forall>fd. formData dash = Some (Composed fd)
            \<and> (\<forall>msg. fst (checkNotificationConfig E w) \<noteq> ConfigError msg)
        \<longrightarrow> (\<exists>r \<in> set (issued w (snd (handleSendReceipt E dash w))).
               url r = API_BASE_URL E @ ''/receipts'' \<and> http_method r = Some ''POST''
               \<and> body r = Some (stringify E (receipt_json (composed_data fd)))))
   \<and> (\<forall>pv rd. formData dash = Some pv \<and> preview_truthy pv \<and> receiptData pv = Inr rd
            \<and> (\<forall>msg. fst (checkNotificationConfig E w) \<noteq> ConfigError msg)
        \<longrightarrow> (\<exists>r \<in> set (issued w (snd (handleSendReceipt E dash w))).
               url r = API_BASE_URL E @ ''/receipts'' \<and> http_method r = Some ''POST''
               \<and> body r = Some (stringify E (receipt_json rd))))
   \<and> (\<forall>pv msg. formData dash = Some pv \<and> fst (checkNotificationConfig E w) = ConfigError msg
        \<longrightarrow> (\<forall>r \<in> set (issued w (snd (handleSendReceipt E dash w))).
               url r \<noteq> API_BASE_URL E @ ''/receipts''))
   \<and> (\<forall>pv e. formData dash = Some pv \<and> receiptData pv = Inl e
        \<longrightarrow> (\<forall>r \<in> set (issued w (snd (handleSendReceipt E dash w))).
               url r \<noteq> API_BASE_URL E @ ''/receipts''))
   \<and> (\<forall>pv. formData dash = Some pv \<and> \<not> preview_truthy pv
        \<longrightarrow> handleSendReceipt E dash w = (dash, w))"
proof (intro conjI allI impI)
  show "page_browser (snd (submit_form E now date p)) = page_browser p"
    by (simp add: submit_form_def split: prod.splits)
next
  fix p'
  assume "submit_form E now date p = (None, p')"
  then show "\<exists>fd. formData (page_dashboard p') = Some (Composed fd)
               \<and> d_items fd = items (page_form p)
               \<and> showPreview (page_dashboard p')"
    by (auto simp add: submit_form_def handleSubmit_def handleCreateReceipt_def setFormData_def
          setShowPreview_def with_receipt_number_def submission.defs form_data.defs
          split: if_splits)
next
  assume "formData dash = None"
  then show "handleSendReceipt E dash w = (dash, w)" by (simp add: handleSendReceipt_def)
next
  fix fd
  assume a: "formData dash = Some (Composed fd)
            \<and> (\<forall>msg. fst (checkNotificationConfig E w) \<noteq> ConfigError msg)"
  then show "\<exists>r \<in> set (issued w (snd (handleSendReceipt E dash w))).
               url r = API_BASE_URL E @ ''/receipts'' \<and> http_method r = Some ''POST''
               \<and> body r = Some (stringify E (receipt_json (composed_data fd)))"
    using handleSendReceipt_creates [of dash "Composed fd" "composed_data fd" E w] by simp
next
  fix pv rd
  assume a: "formData dash = Some pv \<and> preview_truthy pv \<and> receiptData pv = Inr rd
            \<and> (\<forall>msg. fst (checkNotificationConfig E w) \<noteq> ConfigError msg)"
  then show "\<exists>r \<in> set (issued w (snd (handleSendReceipt E dash w))).
               url r = API_BASE_URL E @ ''/receipts'' \<and> http_method r = Some ''POST''
               \<and> body r = Some (stringify E (receipt_json rd))"
    using handleSendReceipt_creates [of dash pv rd E w] by simp
next
  fix pv msg
  assume a: "formData dash = Some pv \<and> fst (checkNotificationConfig E w) = ConfigError msg"
  then show "\<forall>r \<in> set (issued w (snd (handleSendReceipt E dash w))).
               url r \<noteq> API_BASE_URL E @ ''/receipts''"
    using handleSendReceipt_no_create [of dash pv E w] by blast
next
  fix pv e
  assume a: "formData dash = Some pv \<and> receiptData pv = Inl e"
  then show "\<forall>r \<in> set (issued w (snd (handleSendReceipt E dash w))).
               url r \<noteq> API_BASE_URL E @ ''/receipts''"
    using handleSendReceipt_no_create [of dash pv E w] by blast
next
  fix pv
  assume "formData dash = Some pv \<and> \<not> preview_truthy pv"
  then show "handleSendReceipt E dash w = (dash, w)" by (simp add: handleSendReceipt_def)
qed

text \<open>A receipt is composed and sent: configuration, creation, email, reload.\<close>

theorem receipt_created_on_send_witness:
  "(let dash = handleCreateReceipt example_env 1764720000000 1764720000123 example_submission
                 initial_dashboard;
        (dash', w') = handleSendReceipt example_env dash example_send_world
    in formData dash = Some (Composed example_receipt)
       \<and> map (\<lambda>r. (effective_method r, url r)) (issued example_send_world w')
         = [(''GET'', ''http://localhost:5000/api/notifications/config''),
            (''POST'', ''http://localhost:5000/api/receipts''),
            (''POST'', ''http://localhost:5000/api/notifications/send-email/r42''),
            (''GET'', ''http://localhost:5000/api/receipts?page=1&per_page=20'')]
       \<and> toastMessage dash' = check_mark @ '' Receipt sent via email to ann@example.com''
       \<and> formData dash' = None \<and> \<not> showPreview dash' \<and> \<not> isSending dash'
       \<and> receipts dash' = Some (JArr [JObj [(''id'', JStr ''r42'')]]))
   \<and> (\<exists>r \<in> set (issued example_send_world
                   (snd (handleSendReceipt example_env
                           (handleCreateReceipt example_env 1764720000000 1764720000123
                              example_submission initial_dashboard)
                           example_send_world))).
          url r = ''http://localhost:5000/api/receipts'' \<and> http_method r = Some ''POST''
          \<and> body r = Some (example_stringify (receipt_json (composed_data example_receipt))))
   \<and> page_browser (snd (submit_form example_env 1764720000000 1764720000123 example_page))
       = page_browser example_page"
proof -
  let ?dash = "handleCreateReceipt example_env 1764720000000 1764720000123 example_submission
                 initial_dashboard"
  have fd: "formData ?dash = Some (Composed example_receipt)"
    by (simp add: handleCreateReceipt_def setFormData_def setShowPreview_def example_receipt_def)
  have cc: "checkNotificationConfig example_env example_send_world
              = (ConfigNull, snd (checkNotificationConfig example_env example_send_world))"
    by (simp add: eval_defs send_eval dashboard_eval)
  have run: "(let (dash', w') = handleSendReceipt example_env ?dash example_send_world
    in map (\<lambda>r. (effective_method r, url r)) (issued example_send_world w')
         = [(''GET'', ''http://localhost:5000/api/notifications/config''),
            (''POST'', ''http://localhost:5000/api/receipts''),
            (''POST'', ''http://localhost:5000/api/notifications/send-email/r42''),
            (''GET'', ''http://localhost:5000/api/receipts?page=1&per_page=20'')]
       \<and> toastMessage dash' = check_mark @ '' Receipt sent via email to ann@example.com''
       \<and> formData dash' = None \<and> \<not> showPreview dash' \<and> \<not> isSending dash'
       \<and> receipts dash' = Some (JArr [JObj [(''id'', JStr ''r42'')]]))"
    by (simp add: eval_defs send_eval dashboard_eval effective_method_def)
  have ne: "\<forall>msg. fst (checkNotificationConfig example_env example_send_world) \<noteq> ConfigError msg"
    using cc by (metis config_check.distinct(3) fst_conv)
  note inst = receipt_created_on_send [of example_env 1764720000000 1764720000123 example_page ?dash
         example_send_world]
  from inst have a: "page_browser (snd (submit_form example_env 1764720000000 1764720000123 example_page))
       = page_browser example_page" by blast
  from inst fd ne have b: "\<exists>r \<in> set (issued example_send_world
                   (snd (handleSendReceipt example_env ?dash example_send_world))).
          url r = API_BASE_URL example_env @ ''/receipts'' \<and> http_method r = Some ''POST''
          \<and> body r = Some (stringify example_env (receipt_json (composed_data example_receipt)))"
    by blast
  have e: "API_BASE_URL example_env @ ''/receipts'' = ''http://localhost:5000/api/receipts''"
    "stringify example_env = example_stringify"
    by (simp_all add: example_env_def)
  from run a b fd show ?thesis unfolding e by simp
qed

section \<open>Properties of the protected route\<close>

text \<open>
  Claim C6. On every render of the protected route inside the provider: while the auth
  context is loading the spinner is shown; when loading is over and the context reports
  no authenticated user, the route redirects to \<open>/login\<close>; otherwise the children
  are rendered. The provider reports a user as authenticated exactly when its \<open>user\<close>
  is truthy.
\<close>

theorem protected_route_render:
  "(loading c \<longrightarrow> ProtectedRoute (Some c) children = Inr Spinner)
   \<and> (\<not> loading c \<and> \<not> isAuthenticated c \<longrightarrow>
        ProtectedRoute (Some c) children = Inr (Navigate ''/login'' True))
   \<and> (\<not> loading c \<and> isAuthenticated c \<longrightarrow>
        ProtectedRoute (Some c) children = Inr (Children children))
   \<and> loading (AuthProvider_value u l) = l
   \<and> isAuthenticated (AuthProvider_value u l) = truthy u"
  by (simp add: ProtectedRoute_def useAuth_def AuthProvider_value_def)

text \<open>The three renders: loading, no user, a user.\<close>

theorem protected_route_render_witness:
  "ProtectedRoute (Some (AuthProvider_value None True)) ''dashboard'' = Inr Spinner
   \<and> ProtectedRoute (Some (AuthProvider_value (Some JNull) False)) ''dashboard''
       = Inr (Navigate ''/login'' True)
   \<and> ProtectedRoute (Some (AuthProvider_value (Some (JObj [(''email'', JStr ''u@x.y'')])) False))
         ''dashboard''
       = Inr (Children ''dashboard'')"
  using protected_route_render [of "AuthProvider_value None True" "''dashboard''" None True]
        protected_route_render [of "AuthProvider_value (Some JNull) False" "''dashboard''"
           "Some JNull" False]
        protected_route_render [of "AuthProvider_value (Some (JObj [(''email'', JStr ''u@x.y'')])) False"
           "''dashboard''" "Some (JObj [(''email'', JStr ''u@x.y'')])" False]
  by simp

end
